theory Spec2Isabelle
  imports Complex_Main "HOL-Library.Sublist"
begin

section \<open>Strings and numbers of the JavaScript source\<close>

text \<open>
  A JavaScript string is modelled as a \<^typ>\<open>string\<close>, one \<^typ>\<open>char\<close> per code unit
  below 256 (so the degree sign of the temperature suffix is the single character
  \<open>0xB0\<close>). \<open>String.prototype.toLowerCase\<close> is modelled on the ASCII letters, which is
  all the keyword tables of \<open>config.js\<close> contain; \<open>String.prototype.includes\<close> is the
  search for a contiguous occurrence.
\<close>

definition toLowerChar :: "char \<Rightarrow> char" where
  "toLowerChar c =
     (let n = (of_char c :: nat) in if 65 \<le> n \<and> n \<le> 90 then char_of (n + 32) else c)"

definition toLowerCase :: "string \<Rightarrow> string" where
  "toLowerCase s = map toLowerChar s"

definition toUpperChar :: "char \<Rightarrow> char" where
  "toUpperChar c =
     (let n = (of_char c :: nat) in if 97 \<le> n \<and> n \<le> 122 then char_of (n - 32) else c)"

definition toUpperCase :: "string \<Rightarrow> string" where
  "toUpperCase s = map toUpperChar s"

fun str_includes :: "string \<Rightarrow> string \<Rightarrow> bool" where
  "str_includes [] sub = (sub = [])"
| "str_includes (c # cs) sub = (prefix sub (c # cs) \<or> str_includes cs sub)"

section \<open>config.js\<close>

definition SEVERITY_LEVELS :: "(string \<times> string list) list" where
  "SEVERITY_LEVELS =
     [(''SEVERE'', [''Hurricane'', ''Tornado'', ''Extreme Thunderstorm'', ''Flood'', ''Tsunami'']),
      (''MODERATE'', [''Thunderstorm'', ''Rain'', ''Snow'', ''Fog'', ''Wind'']),
      (''MINOR'', [''Cloudy'', ''Drizzle'', ''Light Rain''])]"

definition CHECK_INTERVAL :: nat where
  "CHECK_INTERVAL = 15 * 60 * 1000"

definition REFRESH_INTERVAL :: nat where
  "REFRESH_INTERVAL = 30 * 60 * 1000"

definition NOTIFICATION_DURATION :: nat where
  "NOTIFICATION_DURATION = 10000"

definition TEMPERATURE_DECIMAL_PLACES :: nat where
  "TEMPERATURE_DECIMAL_PLACES = 1"

definition SAVED_LOCATIONS_LIMIT :: nat where
  "SAVED_LOCATIONS_LIMIT = 5"

section \<open>WeatherService.getAlertSeverity\<close>

record alert =
  event :: string
  description :: string
  start :: int
  ends :: int

text \<open>
  The inner loop over the keywords of one level: does one of them occur, lower-cased, in
  the lower-cased event or description?
\<close>

fun keyword_loop :: "string \<Rightarrow> string \<Rightarrow> string list \<Rightarrow> bool" where
  "keyword_loop ev de [] = False"
| "keyword_loop ev de (keyword # keywords) =
     (if str_includes ev (toLowerCase keyword) \<or> str_includes de (toLowerCase keyword) then True
      else keyword_loop ev de keywords)"

text \<open>
  The outer loop over \<open>Object.entries\<close> of the table, in declaration order; it returns
  at the first level with a matching keyword.
\<close>

fun level_loop :: "string \<Rightarrow> string \<Rightarrow> (string \<times> string list) list \<Rightarrow> string option" where
  "level_loop ev de [] = None"
| "level_loop ev de ((level, keywords) # rest) =
     (if keyword_loop ev de keywords then Some (toLowerCase level)
      else level_loop ev de rest)"

definition getAlertSeverity :: "alert \<Rightarrow> string" where
  "getAlertSeverity a =
     (let ev = toLowerCase (event a); de = toLowerCase (description a)
      in case level_loop ev de SEVERITY_LEVELS of
           Some level \<Rightarrow> level
         | None \<Rightarrow> ''moderate'')"

text \<open>
  The words of the specification: a keyword matches an alert when it occurs, ignoring
  case, in the event or in the description; the table is read as one sequence of
  (level, keyword) entries in declaration order.
\<close>

definition keyword_matches :: "alert \<Rightarrow> string \<Rightarrow> bool" where
  "keyword_matches a keyword =
     (sublist (toLowerCase keyword) (toLowerCase (event a))
      \<or> sublist (toLowerCase keyword) (toLowerCase (description a)))"

definition table_entries :: "(string \<times> string list) list \<Rightarrow> (string \<times> string) list" where
  "table_entries levels = concat (map (\<lambda>(level, keywords). map (Pair level) keywords) levels)"

definition keywords_of :: "string \<Rightarrow> string list" where
  "keywords_of level = (case map_of SEVERITY_LEVELS level of Some ks \<Rightarrow> ks | None \<Rightarrow> [])"

section \<open>Numbers as text\<close>

text \<open>
  Template literals print a number in decimal. Timestamps, status codes and the configured
  limits are integers, printed digit by digit.
\<close>

definition digit_char :: "nat \<Rightarrow> char" where
  "digit_char d = ''0123456789'' ! d"

function nat_to_string :: "nat \<Rightarrow> string" where
  "nat_to_string n =
     (if n < 10 then [digit_char n] else nat_to_string (n div 10) @ [digit_char (n mod 10)])"
  by pat_completeness auto
termination
  by (relation "measure id") auto

declare nat_to_string.simps [simp del]

definition int_to_string :: "int \<Rightarrow> string" where
  "int_to_string i = (if i < 0 then ''-'' @ nat_to_string (nat (- i)) else nat_to_string (nat i))"

text \<open>
  \<open>Number.prototype.toFixed\<close> with \<open>f\<close> fraction digits, for a finite number below
  \<open>10^21\<close> in magnitude: \<open>n\<close> is the integer for which \<open>n / 10^f\<close> is closest to the
  number, the larger one on a tie; its digits are padded with zeros to \<open>f + 1\<close> places
  and the point is set before the last \<open>f\<close>. The number is a real here: a binary double is
  one particular real, and the properties below hold on a whole interval around it.
\<close>

definition toFixed :: "real \<Rightarrow> nat \<Rightarrow> string" where
  "toFixed x f =
     (let s = (if x < 0 then ''-'' else []);
          n = nat \<lfloor>\<bar>x\<bar> * 10 ^ f + 1 / 2\<rfloor>;
          m = nat_to_string n
      in if f \<noteq> 0 then
           (let m' = (if length m \<le> f then replicate (f + 1 - length m) (CHR ''0'') @ m else m);
                k = length m'
            in s @ take (k - f) m' @ ''.'' @ drop (k - f) m')
         else s @ m)"

section \<open>WeatherService: the gateway\<close>

definition WEATHER_API_KEY :: string where
  "WEATHER_API_KEY = ''2d6185ce67da5b9bd63fbe025eaa7f62''"

definition ENDPOINT_CURRENT_WEATHER :: string where
  "ENDPOINT_CURRENT_WEATHER = ''https://api.openweathermap.org/data/2.5/weather''"

definition ENDPOINT_ONECALL :: string where
  "ENDPOINT_ONECALL = ''https://api.openweathermap.org/data/2.5/onecall''"

definition ENDPOINT_GEOCODING :: string where
  "ENDPOINT_GEOCODING = ''https://api.openweathermap.org/geo/1.0/direct''"

record weather_service =
  apiKey :: string
  units :: string
  language :: string

definition new_WeatherService :: weather_service where
  "new_WeatherService = \<lparr>apiKey = WEATHER_API_KEY, units = ''metric'', language = ''en''\<rparr>"

record location =
  lat :: real
  lon :: real
  name :: string
  country :: string

record current_weather =
  c_dt :: int
  c_temp :: real
  c_feels_like :: real
  c_humidity :: real
  c_wind_speed :: real

record day_forecast =
  d_dt :: int
  d_temp_min :: real
  d_temp_max :: real

record hour_forecast =
  h_dt :: int
  h_temp :: real

text \<open>
  The body of a OneCall response. A key the provider leaves out is \<open>undefined\<close> in
  JavaScript and \<open>None\<close> here.
\<close>

record onecall =
  daily :: "day_forecast list"
  hourly :: "hour_forecast list option"
  alerts :: "alert list option"

text \<open>
  Every \<open>throw\<close> of the gateway is an \<open>Error\<close> with a message; the constructor records
  which statement threw: the rejected \<open>fetch\<close>, the \<open>!response.ok\<close> check, or the
  empty geocoding result. \<open>TypeError\<close> is a property read on \<open>undefined\<close> or \<open>null\<close>.
\<close>

datatype error =
  NetworkError string
| UpstreamError string
| NotFoundError string
| TypeError string

fun message :: "error \<Rightarrow> string" where
  "message (NetworkError m) = m"
| "message (UpstreamError m) = m"
| "message (NotFoundError m) = m"
| "message (TypeError m) = m"

datatype param = PStr string | PNum real

record request =
  endpoint :: string
  params :: "(string \<times> param) list"

record 'a response =
  ok :: bool
  status :: nat
  statusText :: string
  json :: 'a

text \<open>
  The provider is outside the program: \<open>fetch\<close> is a parameter, a function from the
  request to either the message of a rejected promise or a response with a parsed body.
\<close>

type_synonym 'a fetch = "request \<Rightarrow> string + 'a response"

definition oneCall_request :: "weather_service \<Rightarrow> location \<Rightarrow> bool \<Rightarrow> request" where
  "oneCall_request svc location includeHourly =
     (let url = \<lparr>endpoint = ENDPOINT_ONECALL,
                 params = [(''lat'', PNum (lat location)), (''lon'', PNum (lon location)),
                           (''units'', PStr (units svc)), (''lang'', PStr (language svc)),
                           (''appid'', PStr (apiKey svc))]\<rparr>;
          exclude = (if includeHourly then ''minutely'' else ''minutely,hourly'')
      in url\<lparr>params := params url @ [(''exclude'', PStr exclude)]\<rparr>)"

definition getOneCallData ::
  "weather_service \<Rightarrow> onecall fetch \<Rightarrow> location \<Rightarrow> bool \<Rightarrow> error + onecall" where
  "getOneCallData svc fetch location includeHourly =
     (case fetch (oneCall_request svc location includeHourly) of
        Inl m \<Rightarrow> Inl (NetworkError m)
      | Inr response \<Rightarrow>
          if \<not> ok response
          then Inl (UpstreamError (''OneCall API error: '' @ nat_to_string (status response)
                      @ '' '' @ statusText response))
          else Inr (json response))"

definition currentWeather_request :: "weather_service \<Rightarrow> location \<Rightarrow> request" where
  "currentWeather_request svc location =
     \<lparr>endpoint = ENDPOINT_CURRENT_WEATHER,
      params = [(''lat'', PNum (lat location)), (''lon'', PNum (lon location)),
                (''units'', PStr (units svc)), (''lang'', PStr (language svc)),
                (''appid'', PStr (apiKey svc))]\<rparr>"

definition getCurrentWeather ::
  "weather_service \<Rightarrow> current_weather fetch \<Rightarrow> location \<Rightarrow> error + current_weather" where
  "getCurrentWeather svc fetch location =
     (case fetch (currentWeather_request svc location) of
        Inl m \<Rightarrow> Inl (NetworkError m)
      | Inr response \<Rightarrow>
          if \<not> ok response
          then Inl (UpstreamError (''Weather API error: '' @ nat_to_string (status response)
                      @ '' '' @ statusText response))
          else Inr (json response))"

definition geocoding_request :: "weather_service \<Rightarrow> string \<Rightarrow> request" where
  "geocoding_request svc cityName =
     \<lparr>endpoint = ENDPOINT_GEOCODING,
      params = [(''q'', PStr cityName), (''limit'', PNum 5), (''appid'', PStr (apiKey svc))]\<rparr>"

text \<open>
  \<open>WeatherService.searchLocation\<close>. A geocoding candidate is kept as the four fields the
  application reads from it.
\<close>

definition WeatherService_searchLocation ::
  "weather_service \<Rightarrow> location list fetch \<Rightarrow> string \<Rightarrow> error + location list" where
  "WeatherService_searchLocation svc fetch cityName =
     (case fetch (geocoding_request svc cityName) of
        Inl m \<Rightarrow> Inl (NetworkError m)
      | Inr response \<Rightarrow>
          if \<not> ok response
          then Inl (UpstreamError (''Geocoding API error: '' @ nat_to_string (status response)
                      @ '' '' @ statusText response))
          else (let data = json response
                in if length data = 0
                   then Inl (NotFoundError (''No locations found for '' @ [CHR 0x22] @ cityName
                               @ [CHR 0x22]))
                   else Inr data))"

text \<open>
  \<open>formatTemperature\<close>: \<open>null\<close> is \<open>None\<close>; every real number, zero included, is
  formatted.
\<close>

definition formatTemperature :: "weather_service \<Rightarrow> real option \<Rightarrow> string" where
  "formatTemperature svc temp =
     (case temp of
        None \<Rightarrow> ''--''
      | Some t \<Rightarrow>
          (let roundedTemp = toFixed t TEMPERATURE_DECIMAL_PLACES
           in if units svc = ''imperial'' then roundedTemp @ [CHR 0xB0] @ ''F''
              else if units svc = ''metric'' then roundedTemp @ [CHR 0xB0] @ ''C''
              else roundedTemp @ ''K''))"

section \<open>WeatherApp: the refresh and alert scheduler\<close>

subsection \<open>The application and the browser around it\<close>

text \<open>
  \<open>Notification.permission\<close>, the pending timers of the page (\<open>setTimeout\<close> gives a
  timer without a period, \<open>setInterval\<close> one with a period), and the notifications
  raised so far. Timer ids are handed out in increasing order and never reused, as a
  browser does; ids are positive, so a stored id is truthy.
\<close>

datatype permission = granted | denied | default_permission

datatype timer_kind = AlertCheck | Refresh | HideError | CloseNotification

record timer =
  tid :: nat
  kind :: timer_kind
  due :: nat
  period :: "nat option"

record notification =
  title :: string
  body :: string
  icon :: string
  tag :: string
  requireInteraction :: bool

record weather_data =
  current :: current_weather
  forecast :: "day_forecast list"
  hourly :: "hour_forecast list"
  alerts :: "alert list"

text \<open>
  One record holds the fields of \<open>WeatherApp\<close> (\<open>currentLocation\<close>, \<open>weatherData\<close>,
  \<open>alertCheckInterval\<close>, \<open>refreshTimer\<close>), what the page shows (the alerts toggle, the
  loading indicator, the error message), the browser (permission, clock, timers,
  notifications, console, the requests sent) and the two \<open>localStorage\<close> keys the
  scheduler uses (\<open>shownAlerts\<close>, \<open>weatherLocation\<close>; an absent key is \<open>None\<close>).
  The page elements the scheduler writes to are taken to exist.
\<close>

record world =
  currentLocation :: "location option"
  weatherData :: "weather_data option"
  alertCheckInterval :: "nat option"
  refreshTimer :: "nat option"
  alertsToggle_checked :: bool
  loading :: bool
  errorText :: string
  errorVisible :: bool
  permission :: permission
  now :: nat
  next_id :: nat
  timers :: "timer list"
  notifications :: "notification list"
  console :: "string list"
  requests :: "request list"
  shownAlerts :: "string list option"
  weatherLocation :: "location option"

definition setTimeout :: "timer_kind \<Rightarrow> nat \<Rightarrow> world \<Rightarrow> nat \<times> world" where
  "setTimeout k delay w =
     (next_id w,
      w\<lparr>timers := timers w @ [\<lparr>tid = next_id w, kind = k, due = now w + delay, period = None\<rparr>],
        next_id := next_id w + 1\<rparr>)"

definition setInterval :: "timer_kind \<Rightarrow> nat \<Rightarrow> world \<Rightarrow> nat \<times> world" where
  "setInterval k delay w =
     (next_id w,
      w\<lparr>timers := timers w @ [\<lparr>tid = next_id w, kind = k, due = now w + delay,
                                period = Some delay\<rparr>],
        next_id := next_id w + 1\<rparr>)"

text \<open>\<open>clearTimeout\<close> and \<open>clearInterval\<close>: the timer with that id, if pending, is gone.\<close>

definition clearTimer :: "nat \<Rightarrow> world \<Rightarrow> world" where
  "clearTimer i w = w\<lparr>timers := filter (\<lambda>t. tid t \<noteq> i) (timers w)\<rparr>"

definition showLoading :: "world \<Rightarrow> world" where
  "showLoading w = w\<lparr>loading := True, errorVisible := False\<rparr>"

definition hideLoading :: "world \<Rightarrow> world" where
  "hideLoading w = w\<lparr>loading := False\<rparr>"

definition showError :: "string \<Rightarrow> world \<Rightarrow> world" where
  "showError msg w = snd (setTimeout HideError 5000 (w\<lparr>errorText := msg, errorVisible := True\<rparr>))"

subsection \<open>showAlertNotifications\<close>

definition alertId :: "alert \<Rightarrow> string" where
  "alertId a = event a @ ''-'' @ int_to_string (start a) @ ''-'' @ int_to_string (ends a)"

definition alert_notification :: "alert \<Rightarrow> notification" where
  "alert_notification a =
     (let severity = getAlertSeverity a
      in \<lparr>title = toUpperCase severity @ '' Weather Alert: '' @ event a,
          body = description a,
          icon = ''/favicon.ico'',
          tag = ''weather-alert-'' @ int_to_string (start a),
          requireInteraction = (severity = ''severe'')\<rparr>)"

text \<open>
  The body of the \<open>forEach\<close> over the new alerts: the notification is raised, a timer
  closes it unless the alert is severe, and the identity is pushed on the array read from
  \<open>localStorage\<close>.
\<close>

definition notify_alert :: "world \<times> string list \<Rightarrow> alert \<Rightarrow> world \<times> string list" where
  "notify_alert st a =
     (let w = fst st; shown = snd st;
          w1 = w\<lparr>notifications := notifications w @ [alert_notification a]\<rparr>;
          w2 = (if getAlertSeverity a \<noteq> ''severe''
                then snd (setTimeout CloseNotification NOTIFICATION_DURATION w1) else w1)
      in (w2, shown @ [alertId a]))"

definition stored_shownAlerts :: "world \<Rightarrow> string list" where
  "stored_shownAlerts w = (case shownAlerts w of None \<Rightarrow> [] | Some l \<Rightarrow> l)"

definition newAlerts :: "string list \<Rightarrow> alert list \<Rightarrow> alert list" where
  "newAlerts shown as = filter (\<lambda>a. alertId a \<notin> set shown) as"

definition showAlertNotifications :: "alert list \<Rightarrow> world \<Rightarrow> world" where
  "showAlertNotifications as w =
     (if length as = 0 then w
      else (let shown = stored_shownAlerts w;
                new = newAlerts shown as
            in if length new = 0 then w
               else (let st = foldl notify_alert (w, shown) new
                     in (fst st)\<lparr>shownAlerts := Some (snd st)\<rparr>)))"

text \<open>
  \<open>processAlerts\<close> renders the list and, when there are alerts and the permission is
  granted, raises the notifications. Both callers have written \<open>weatherData\<close> just
  before the call.
\<close>

definition processAlerts :: "world \<Rightarrow> world" where
  "processAlerts w =
     (case weatherData w of
        None \<Rightarrow> w
      | Some wd \<Rightarrow>
          if length (alerts wd) > 0 \<and> permission w = granted
          then showAlertNotifications (alerts wd) w else w)"

subsection \<open>Timers of the scheduler\<close>

definition startAlertChecking :: "world \<Rightarrow> world" where
  "startAlertChecking w =
     (let w1 = (case alertCheckInterval w of Some i \<Rightarrow> clearTimer i w | None \<Rightarrow> w);
          r = setInterval AlertCheck CHECK_INTERVAL w1
      in (snd r)\<lparr>alertCheckInterval := Some (fst r)\<rparr>)"

definition toggleAlerts :: "bool \<Rightarrow> world \<Rightarrow> world" where
  "toggleAlerts enabled w =
     (if enabled then startAlertChecking w
      else (case alertCheckInterval w of
              Some i \<Rightarrow> (clearTimer i w)\<lparr>alertCheckInterval := None\<rparr>
            | None \<Rightarrow> w))"

definition setupAutoRefresh :: "world \<Rightarrow> world" where
  "setupAutoRefresh w =
     (let w1 = (case refreshTimer w of Some i \<Rightarrow> clearTimer i w | None \<Rightarrow> w);
          r = setTimeout Refresh REFRESH_INTERVAL w1
      in (snd r)\<lparr>refreshTimer := Some (fst r)\<rparr>)"

subsection \<open>fetchWeatherData\<close>

text \<open>
  The two requests are awaited one after the other inside one \<open>try\<close>; a rejected request
  jumps to the \<open>catch\<close>, which shows the message, and the \<open>finally\<close> hides the loading
  indicator. The run between two awaits is not interleaved with other callbacks here. The
  rendering calls between the assignment of \<open>weatherData\<close> and \<open>processAlerts\<close>
  (\<open>updateWeatherUI\<close>, the map and the charts) write to the page only and are taken to
  return normally.
\<close>

definition fetchWeatherData ::
  "weather_service \<Rightarrow> onecall fetch \<Rightarrow> current_weather fetch \<Rightarrow> world \<Rightarrow> world" where
  "fetchWeatherData svc fetch_oc fetch_cw w =
     (case currentLocation w of
        None \<Rightarrow> w
      | Some loc \<Rightarrow>
          (let w1 = showLoading w;
               w2 = w1\<lparr>requests := requests w1 @ [oneCall_request svc loc True]\<rparr>
           in case getOneCallData svc fetch_oc loc True of
                Inl e \<Rightarrow> hideLoading (showError (message e) w2)
              | Inr oneCallData \<Rightarrow>
                  (let w3 = w2\<lparr>requests := requests w2 @ [currentWeather_request svc loc]\<rparr>
                   in case getCurrentWeather svc fetch_cw loc of
                        Inl e \<Rightarrow> hideLoading (showError (message e) w3)
                      | Inr currentWeather \<Rightarrow>
                          (let w4 = w3\<lparr>weatherData := Some
                                 \<lparr>current = currentWeather,
                                  forecast = daily oneCallData,
                                  hourly = (case onecall.hourly oneCallData of
                                              Some hs \<Rightarrow> hs | None \<Rightarrow> []),
                                  alerts = (case onecall.alerts oneCallData of
                                              Some as \<Rightarrow> as | None \<Rightarrow> [])\<rparr>\<rparr>;
                               w5 = processAlerts w4;
                               w6 = (if permission w5 = granted then startAlertChecking w5
                                     else w5);
                               w7 = setupAutoRefresh w6
                           in hideLoading w7))))"

subsection \<open>The timer callbacks\<close>

text \<open>The callback of \<open>setupAutoRefresh\<close>.\<close>

definition refresh_callback ::
  "weather_service \<Rightarrow> onecall fetch \<Rightarrow> current_weather fetch \<Rightarrow> world \<Rightarrow> world" where
  "refresh_callback svc fetch_oc fetch_cw w =
     (if currentLocation w \<noteq> None then fetchWeatherData svc fetch_oc fetch_cw w else w)"

text \<open>
  The callback of \<open>startAlertChecking\<close>: the alerts of the snapshot are overwritten and
  processed; any error, the \<open>TypeError\<close> of a missing snapshot included, goes to the
  console.
\<close>

definition alert_check_callback :: "weather_service \<Rightarrow> onecall fetch \<Rightarrow> world \<Rightarrow> world" where
  "alert_check_callback svc fetch_oc w =
     (case currentLocation w of
        None \<Rightarrow> w
      | Some loc \<Rightarrow>
          if \<not> alertsToggle_checked w then w
          else (let w1 = w\<lparr>requests := requests w @ [oneCall_request svc loc True]\<rparr>
                in case getOneCallData svc fetch_oc loc True of
                     Inl e \<Rightarrow> w1\<lparr>console := console w1 @ [message e]\<rparr>
                   | Inr oneCallData \<Rightarrow>
                       (case weatherData w1 of
                          None \<Rightarrow> w1\<lparr>console := console w1
                                     @ [''Cannot set properties of null (setting alerts)'']\<rparr>
                        | Some wd \<Rightarrow>
                            processAlerts (w1\<lparr>weatherData := Some
                              (wd\<lparr>alerts := (case onecall.alerts oneCallData of
                                               Some as \<Rightarrow> as | None \<Rightarrow> [])\<rparr>)\<rparr>))))"

text \<open>
  A pending timer comes due: the clock moves to its due time, a timeout leaves the pending
  timers, an interval is due again one period later, and the callback runs.
\<close>

definition fire ::
  "weather_service \<Rightarrow> onecall fetch \<Rightarrow> current_weather fetch \<Rightarrow> nat \<Rightarrow> world \<Rightarrow> world" where
  "fire svc fetch_oc fetch_cw i w =
     (case find (\<lambda>t. tid t = i) (timers w) of
        None \<Rightarrow> w
      | Some t \<Rightarrow>
          (let w1 = w\<lparr>now := max (now w) (due t),
                     timers := (case period t of
                                  None \<Rightarrow> filter (\<lambda>u. tid u \<noteq> i) (timers w)
                                | Some p \<Rightarrow> map (\<lambda>u. if tid u = i then u\<lparr>due := due u + p\<rparr>
                                                       else u) (timers w))\<rparr>
           in case kind t of
                Refresh \<Rightarrow> refresh_callback svc fetch_oc fetch_cw w1
              | AlertCheck \<Rightarrow> alert_check_callback svc fetch_oc w1
              | HideError \<Rightarrow> w1\<lparr>errorVisible := False\<rparr>
              | CloseNotification \<Rightarrow> w1))"

subsection \<open>WeatherApp.searchLocation\<close>

definition WeatherApp_saveLocation :: "world \<Rightarrow> world" where
  "WeatherApp_saveLocation w =
     (case currentLocation w of
        Some loc \<Rightarrow> w\<lparr>weatherLocation := Some loc\<rparr>
      | None \<Rightarrow> w)"

definition WeatherApp_searchLocation ::
  "weather_service \<Rightarrow> location list fetch \<Rightarrow> onecall fetch \<Rightarrow> current_weather fetch
     \<Rightarrow> string \<Rightarrow> world \<Rightarrow> world" where
  "WeatherApp_searchLocation svc fetch_geo fetch_oc fetch_cw query w =
     (let w1 = showLoading w;
          w2 = w1\<lparr>requests := requests w1 @ [geocoding_request svc query]\<rparr>
      in case WeatherService_searchLocation svc fetch_geo query of
           Inl e \<Rightarrow> hideLoading (showError (message e) w2)
         | Inr locations \<Rightarrow>
             (case locations of
                [] \<Rightarrow> hideLoading (showError
                        ''Cannot read properties of undefined (reading lat)'' w2)
              | location # rest \<Rightarrow>
                  (let w3 = w2\<lparr>currentLocation := Some
                              \<lparr>lat = lat location, lon = lon location,
                               name = name location, country = country location\<rparr>\<rparr>;
                       w4 = WeatherApp_saveLocation w3;
                       w5 = fetchWeatherData svc fetch_oc fetch_cw w4
                   in hideLoading w5)))"

section \<open>UserService (user.js)\<close>

text \<open>
  A registered user as stored under \<open>weather_app_users\<close>; a saved location is a location
  with an id. The session object (\<open>this.currentUser\<close>, also stored under
  \<open>weather_app_currentUser\<close>) is a JavaScript object literal: it is kept as the list of
  its keys and values, so that which keys it has is a property of the value and not of a
  type. \<open>JSON.stringify\<close> followed by \<open>JSON.parse\<close> is taken to give the value back; an
  absent storage key is \<open>None\<close>. \<open>dialogs\<close> are the messages shown with \<open>alert\<close>.
\<close>

record saved_location = location +
  sl_id :: string

record user =
  user_id :: string
  user_name :: string
  email :: string
  password :: string
  user_savedLocations :: "saved_location list"

type_synonym js_object = "(string \<times> string) list"

record user_service =
  currentUser :: "js_object option"
  savedLocations :: "saved_location list"
  stored_users :: "user list option"
  stored_currentUser :: "js_object option"
  dialogs :: "string list"

definition get_users :: "user_service \<Rightarrow> user list" where
  "get_users s = (case stored_users s of Some us \<Rightarrow> us | None \<Rightarrow> [])"

text \<open>The constructor on an empty storage.\<close>

definition new_UserService :: user_service where
  "new_UserService =
     \<lparr>currentUser = None, savedLocations = [], stored_users = None,
      stored_currentUser = None, dialogs = []\<rparr>"

definition js_alert :: "string \<Rightarrow> user_service \<Rightarrow> user_service" where
  "js_alert msg s = s\<lparr>dialogs := dialogs s @ [msg]\<rparr>"

definition login :: "string \<Rightarrow> string \<Rightarrow> user_service \<Rightarrow> user_service" where
  "login mail pw s =
     (case find (\<lambda>u. email u = mail \<and> password u = pw) (get_users s) of
        None \<Rightarrow> js_alert ''Invalid email or password'' s
      | Some u \<Rightarrow>
          (let session = [(''id'', user_id u), (''name'', user_name u), (''email'', email u)]
           in s\<lparr>currentUser := Some session,
                savedLocations := user_savedLocations u,
                stored_currentUser := Some session\<rparr>))"

text \<open>\<open>register\<close>; the id of the new user is \<open>Date.now()\<close> in decimal.\<close>

definition register :: "nat \<Rightarrow> string \<Rightarrow> string \<Rightarrow> string \<Rightarrow> user_service \<Rightarrow> user_service" where
  "register date_now nm mail pw s =
     (let users = get_users s
      in case find (\<lambda>u. email u = mail) users of
           Some existingUser \<Rightarrow> js_alert ''User with this email already exists'' s
         | None \<Rightarrow>
             (let newUser = \<lparr>user_id = nat_to_string date_now, user_name = nm, email = mail,
                              password = pw, user_savedLocations = []\<rparr>
              in login mail pw (s\<lparr>stored_users := Some (users @ [newUser])\<rparr>)))"

definition logout :: "user_service \<Rightarrow> user_service" where
  "logout s = s\<lparr>currentUser := None, savedLocations := [], stored_currentUser := None\<rparr>"

fun findIndex :: "('a \<Rightarrow> bool) \<Rightarrow> 'a list \<Rightarrow> nat option" where
  "findIndex P [] = None"
| "findIndex P (x # xs) = (if P x then Some 0 else map_option Suc (findIndex P xs))"

definition updateUserSavedLocations :: "user_service \<Rightarrow> user_service" where
  "updateUserSavedLocations s =
     (case currentUser s of
        None \<Rightarrow> s
      | Some cu \<Rightarrow>
          (let users = get_users s
           in case findIndex (\<lambda>u. Some (user_id u) = map_of cu ''id'') users of
                None \<Rightarrow> s
              | Some userIndex \<Rightarrow>
                  s\<lparr>stored_users := Some (users[userIndex :=
                       (users ! userIndex)\<lparr>user_savedLocations := savedLocations s\<rparr>])\<rparr>))"

definition limit_message :: string where
  "limit_message = ''You can only save up to '' @ nat_to_string SAVED_LOCATIONS_LIMIT
     @ '' locations. Please remove one first.''"

text \<open>\<open>UserService.saveLocation\<close>; the argument is \<open>None\<close> when the caller passes \<open>null\<close>.\<close>

definition UserService_saveLocation ::
  "nat \<Rightarrow> location option \<Rightarrow> user_service \<Rightarrow> user_service" where
  "UserService_saveLocation date_now location s =
     (case (currentUser s, location) of
        (Some cu, Some loc) \<Rightarrow>
          (case find (\<lambda>l. lat l = lat loc \<and> lon l = lon loc) (savedLocations s) of
             Some existingLocation \<Rightarrow> js_alert ''This location is already saved'' s
           | None \<Rightarrow>
               if length (savedLocations s) \<ge> SAVED_LOCATIONS_LIMIT
               then js_alert limit_message s
               else updateUserSavedLocations
                      (s\<lparr>savedLocations := savedLocations s @
                           [\<lparr>lat = lat loc, lon = lon loc, name = name loc,
                             country = country loc, sl_id = nat_to_string date_now\<rparr>]\<rparr>))
      | _ \<Rightarrow> s)"

definition removeLocation :: "string \<Rightarrow> user_service \<Rightarrow> user_service" where
  "removeLocation locationId s =
     (case currentUser s of
        None \<Rightarrow> s
      | Some cu \<Rightarrow>
          updateUserSavedLocations
            (s\<lparr>savedLocations := filter (\<lambda>l. sl_id l \<noteq> locationId) (savedLocations s)\<rparr>))"

definition loadUserData :: "user_service \<Rightarrow> user_service" where
  "loadUserData s =
     (let s1 = s\<lparr>currentUser := stored_currentUser s\<rparr>
      in case currentUser s1 of
           None \<Rightarrow> s1
         | Some cu \<Rightarrow>
             (case find (\<lambda>u. Some (user_id u) = map_of cu ''id'') (get_users s1) of
                Some u \<Rightarrow> s1\<lparr>savedLocations := user_savedLocations u\<rparr>
              | None \<Rightarrow> s1))"

section \<open>Notions used in the statements\<close>

subsection \<open>Requests and responses\<close>

text \<open>
  Of a OneCall body and of a request: the hourly entries the
  application reads from a body (\<open>oneCallData.hourly || []\<close>), the \<open>exclude\<close> parameter of
  a request, and a provider that leaves the hourly entries out when asked to.
\<close>

definition hourly_entries :: "onecall \<Rightarrow> hour_forecast list" where
  "hourly_entries d = (case onecall.hourly d of Some hs \<Rightarrow> hs | None \<Rightarrow> [])"

definition exclude_param :: "request \<Rightarrow> param option" where
  "exclude_param r = map_of (params r) ''exclude''"

definition honours_exclude :: "onecall fetch \<Rightarrow> bool" where
  "honours_exclude fetch =
     (\<forall>req resp. exclude_param req = Some (PStr ''minutely,hourly'') \<and> fetch req = Inr resp
        \<longrightarrow> hourly_entries (json resp) = [])"

text \<open>A request has failed when its promise is rejected or its response is not ok.\<close>

definition failed :: "string + 'a response \<Rightarrow> bool" where
  "failed r = (case r of Inl m \<Rightarrow> True | Inr resp \<Rightarrow> \<not> ok resp)"

definition alerts_entries :: "onecall \<Rightarrow> alert list" where
  "alerts_entries d = (case onecall.alerts d of Some as \<Rightarrow> as | None \<Rightarrow> [])"

subsection \<open>The timers a state may hold\<close>

text \<open>
  What the browser and the scheduler keep true of the pending timers: ids are distinct and
  below the next id to hand out, as are the two stored handles; a pending timer is an
  alert poll exactly when \<open>alertCheckInterval\<close> holds its id, and a refresh exactly when
  \<open>refreshTimer\<close> does.
\<close>

definition timers_ok :: "timer list \<Rightarrow> nat \<Rightarrow> nat option \<Rightarrow> nat option \<Rightarrow> bool" where
  "timers_ok ts n a r =
     (distinct (map tid ts)
      \<and> (\<forall>t \<in> set ts. tid t < n)
      \<and> (\<forall>i. a = Some i \<longrightarrow> i < n)
      \<and> (\<forall>i. r = Some i \<longrightarrow> i < n)
      \<and> (\<forall>t \<in> set ts. (kind t = AlertCheck) = (a = Some (tid t)))
      \<and> (\<forall>t \<in> set ts. (kind t = Refresh) = (r = Some (tid t))))"

definition timers_wf :: "world \<Rightarrow> bool" where
  "timers_wf w = timers_ok (timers w) (next_id w) (alertCheckInterval w) (refreshTimer w)"

subsection \<open>What happens after a state\<close>

text \<open>
  What can happen to the scheduler, one event after the other: a pending timer fires (the
  provider answering its requests as given), the user flips the alerts toggle, a fetch is
  started (a search, a position fix), or time passes. \<open>alert_polls\<close> lists, for a
  sequence of events, the clock readings at which the callback of an alert poll timer
  ran.
\<close>

datatype event =
  Fire nat "onecall fetch" "current_weather fetch"
| Toggle bool
| Fetch "onecall fetch" "current_weather fetch"
| Advance nat

fun step :: "weather_service \<Rightarrow> world \<Rightarrow> event \<Rightarrow> world" where
  "step svc w (Fire i fetch_oc fetch_cw) = fire svc fetch_oc fetch_cw i w"
| "step svc w (Toggle enabled) = toggleAlerts enabled w"
| "step svc w (Fetch fetch_oc fetch_cw) = fetchWeatherData svc fetch_oc fetch_cw w"
| "step svc w (Advance n) = w\<lparr>now := now w + n\<rparr>"

fun poll_time :: "world \<Rightarrow> event \<Rightarrow> nat list" where
  "poll_time w (Fire i fetch_oc fetch_cw) =
     (case find (\<lambda>t. tid t = i) (timers w) of
        Some t \<Rightarrow> if kind t = AlertCheck then [max (now w) (due t)] else []
      | None \<Rightarrow> [])"
| "poll_time w (Toggle enabled) = []"
| "poll_time w (Fetch fetch_oc fetch_cw) = []"
| "poll_time w (Advance n) = []"

fun alert_polls :: "weather_service \<Rightarrow> world \<Rightarrow> event list \<Rightarrow> nat list" where
  "alert_polls svc w [] = []"
| "alert_polls svc w (e # es) = poll_time w e @ alert_polls svc (step svc w e) es"

text \<open>Every pending alert poll is due at \<open>T\<close> or later.\<close>

definition polls_from :: "nat \<Rightarrow> timer list \<Rightarrow> bool" where
  "polls_from T ts = (\<forall>t \<in> set ts. kind t = AlertCheck \<longrightarrow> T \<le> due t)"

definition polls_not_before :: "nat \<Rightarrow> world \<Rightarrow> bool" where
  "polls_not_before t0 w = (t0 \<le> now w \<and> polls_from (t0 + CHECK_INTERVAL) (timers w))"

subsection \<open>Repeated polls\<close>

text \<open>
  The identity of an alert in the words of the specification, the alerts a sequence of
  polls raises a notification for (each poll is filtered against the log as the polls
  before it left it), and the run of \<open>showAlertNotifications\<close> over the polls.
\<close>

definition identity :: "alert \<Rightarrow> string \<times> int \<times> int" where
  "identity a = (event a, start a, ends a)"



subsection \<open>Actions of a user\<close>

text \<open>
  What a user can make the service do, and the state after a sequence of such actions.
\<close>

datatype user_action =
  Register nat string string string
| Login string string
| Logout
| SaveLocation nat "location option"
| RemoveLocation string
| LoadUserData

fun perform :: "user_service \<Rightarrow> user_action \<Rightarrow> user_service" where
  "perform s (Register date_now nm mail pw) = register date_now nm mail pw s"
| "perform s (Login mail pw) = login mail pw s"
| "perform s Logout = logout s"
| "perform s (SaveLocation date_now location) = UserService_saveLocation date_now location s"
| "perform s (RemoveLocation locationId) = removeLocation locationId s"
| "perform s LoadUserData = loadUserData s"

definition within_limit :: "user_service \<Rightarrow> bool" where
  "within_limit s =
     (length (savedLocations s) \<le> SAVED_LOCATIONS_LIMIT
      \<and> (\<forall>u \<in> set (get_users s). length (user_savedLocations u) \<le> SAVED_LOCATIONS_LIMIT))"

section \<open>Concrete inputs\<close>

subsection \<open>Alerts\<close>

definition tornado_alert :: alert where
  "tornado_alert =
     \<lparr>event = ''Tornado Warning'', description = ''Take shelter'', start = 1000, ends = 2000\<rparr>"


definition light_rain_alert :: alert where
  "light_rain_alert =
     \<lparr>event = ''LIGHT RAIN'', description = ''showers'', start = 1000, ends = 2000\<rparr>"

definition cloudy_alert :: alert where
  "cloudy_alert =
     \<lparr>event = ''Heat'', description = ''very cloudy'', start = 1000, ends = 2000\<rparr>"

definition heat_alert :: alert where
  "heat_alert = \<lparr>event = ''Heat Advisory'', description = ''hot'', start = 1000, ends = 2000\<rparr>"

subsection \<open>Providers\<close>

definition new_york :: location where
  "new_york = \<lparr>lat = 40.7128, lon = - 74.006, name = ''New York'', country = ''US''\<rparr>"

definition sample_onecall :: onecall where
  "sample_onecall =
     \<lparr>daily = [\<lparr>d_dt = 86400, d_temp_min = 10, d_temp_max = 20\<rparr>],
      hourly = Some [\<lparr>h_dt = 3600, h_temp = 15\<rparr>],
      alerts = None\<rparr>"

definition sample_current :: current_weather where
  "sample_current =
     \<lparr>c_dt = 1000, c_temp = 21.549, c_feels_like = 20, c_humidity = 40, c_wind_speed = 3\<rparr>"

definition honouring_provider :: "onecall fetch" where
  "honouring_provider req =
     Inr \<lparr>ok = True, status = 200, statusText = ''OK'',
          json = (if exclude_param req = Some (PStr ''minutely,hourly'')
                  then sample_onecall\<lparr>onecall.hourly := None\<rparr> else sample_onecall)\<rparr>"

definition ignoring_provider :: "onecall fetch" where
  "ignoring_provider req = Inr \<lparr>ok = True, status = 200, statusText = ''OK'', json = sample_onecall\<rparr>"

definition serving_onecall :: "onecall fetch" where
  "serving_onecall req =
     Inr \<lparr>ok = True, status = 200, statusText = ''OK'',
          json = sample_onecall\<lparr>onecall.alerts := Some [tornado_alert]\<rparr>\<rparr>"

definition failing_onecall :: "onecall fetch" where
  "failing_onecall req =
     Inr \<lparr>ok = False, status = 500, statusText = ''Internal Server Error'', json = sample_onecall\<rparr>"

definition serving_current :: "current_weather fetch" where
  "serving_current req = Inr \<lparr>ok = True, status = 200, statusText = ''OK'', json = sample_current\<rparr>"

definition failing_current :: "current_weather fetch" where
  "failing_current req = Inl ''Failed to fetch''"

definition two_candidates :: "location list" where
  "two_candidates =
     [\<lparr>lat = 39.8, lon = - 89.6, name = ''Springfield'', country = ''US''\<rparr>,
      \<lparr>lat = 43.3, lon = - 80.1, name = ''Springfield'', country = ''CA''\<rparr>]"

definition two_provider :: "location list fetch" where
  "two_provider req = Inr \<lparr>ok = True, status = 200, statusText = ''OK'', json = two_candidates\<rparr>"

definition six_candidates :: "location list" where
  "six_candidates =
     map (\<lambda>c. \<lparr>lat = 39.8, lon = - 89.6, name = ''Springfield'', country = c\<rparr>)
       [''US'', ''CA'', ''AU'', ''GB'', ''NZ'', ''ZA'']"

definition generous_provider :: "location list fetch" where
  "generous_provider req = Inr \<lparr>ok = True, status = 200, statusText = ''OK'', json = six_candidates\<rparr>"

subsection \<open>States of the application\<close>

text \<open>The application as its constructor leaves it, in a browser that has granted the
  notification permission.\<close>

definition initial_world :: world where
  "initial_world =
     \<lparr>currentLocation = None, weatherData = None, alertCheckInterval = None,
      refreshTimer = None, alertsToggle_checked = True, loading = False, errorText = [],
      errorVisible = False, permission = granted, now = 0, next_id = 1, timers = [],
      notifications = [], console = [], requests = [], shownAlerts = None,
      weatherLocation = None\<rparr>"

text \<open>
  The application after a first successful fetch for New York: the snapshot is stored, the
  tornado alert has been notified, and both timers are pending.
\<close>

definition armed_world :: world where
  "armed_world =
     fetchWeatherData new_WeatherService serving_onecall serving_current
       (initial_world\<lparr>currentLocation := Some new_york\<rparr>)"

text \<open>
  The application after a first successful fetch for New York in a browser where the
  notification permission has not been granted: the snapshot is stored and the refresh
  timer is the only pending timer.
\<close>

definition quiet_world :: world where
  "quiet_world =
     fetchWeatherData new_WeatherService serving_onecall serving_current
       (initial_world\<lparr>currentLocation := Some new_york, permission := default_permission\<rparr>)"

text \<open>
  The application of \<open>armed_world\<close> after the user has switched the alerts off and 905
  seconds have passed: the refresh timer, due at 1800000, is the only pending timer.
\<close>

definition paused_world :: world where
  "paused_world = foldl (step new_WeatherService) armed_world [Toggle False, Advance 905000]"

subsection \<open>Users\<close>

definition city :: "nat \<Rightarrow> location" where
  "city i = \<lparr>lat = real i, lon = 0, name = ''City'', country = ''US''\<rparr>"

definition ada :: user where
  "ada = \<lparr>user_id = ''1'', user_name = ''Ada'', email = ''ada@example.org'',
           password = ''secret'', user_savedLocations = []\<rparr>"

definition registered_service :: user_service where
  "registered_service = new_UserService\<lparr>stored_users := Some [ada]\<rparr>"

text \<open>A user registers and saves five locations.\<close>

definition full_service :: user_service where
  "full_service =
     foldl perform new_UserService
       [Register 1 ''Ada'' ''ada@example.org'' ''secret'',
        SaveLocation 2 (Some (city 1)), SaveLocation 3 (Some (city 2)),
        SaveLocation 4 (Some (city 3)), SaveLocation 5 (Some (city 4)),
        SaveLocation 6 (Some (city 5))]"

section \<open>Alert severity: the proofs\<close>

lemma includes_sublist: "str_includes s sub = sublist sub s"
  by (induction s) (auto simp: sublist_Cons_right)

lemma keyword_loop_iff:
  "keyword_loop (toLowerCase (event a)) (toLowerCase (description a)) ks
     = (\<exists>k \<in> set ks. keyword_matches a k)"
  by (induction ks) (auto simp: keyword_matches_def includes_sublist)

lemma level_loop_find:
  "level_loop (toLowerCase (event a)) (toLowerCase (description a)) levels
     = map_option (\<lambda>(level, k). toLowerCase level)
         (find (\<lambda>(level, k). keyword_matches a k) (table_entries levels))"
proof (induction levels)
  case Nil
  show ?case by (simp add: table_entries_def)
next
  case (Cons p levels)
  obtain level ks where p: "p = (level, ks)" by (cases p)
  have inner: "find (\<lambda>(level, k). keyword_matches a k) (map (Pair level) ks @ rest)
      = (if \<exists>k \<in> set ks. keyword_matches a k
         then Some (level, the (find (keyword_matches a) ks))
         else find (\<lambda>(level, k). keyword_matches a k) rest)" for rest
    by (induction ks) auto
  show ?case
    using Cons.IH
    by (simp add: p keyword_loop_iff inner table_entries_def)
qed

lemma level_names:
  "toLowerCase ''SEVERE'' = ''severe''" "toLowerCase ''MODERATE'' = ''moderate''"
  "toLowerCase ''MINOR'' = ''minor''"
  by code_simp+

lemma SEVERITY_LEVELS_keywords:
  "SEVERITY_LEVELS = [(''SEVERE'', keywords_of ''SEVERE''), (''MODERATE'', keywords_of ''MODERATE''),
     (''MINOR'', keywords_of ''MINOR'')]"
  by (simp add: keywords_of_def SEVERITY_LEVELS_def)

lemma level_loop3:
  "level_loop ev de [(l1, k1), (l2, k2), (l3, k3)] =
     (if keyword_loop ev de k1 then Some (toLowerCase l1)
      else if keyword_loop ev de k2 then Some (toLowerCase l2)
      else if keyword_loop ev de k3 then Some (toLowerCase l3) else None)"
  by simp

lemma case_if3:
  "(case (if A then Some x else if B then Some y else if C then Some z else None) of
      Some l \<Rightarrow> l | None \<Rightarrow> d) = (if A then x else if B then y else if C then z else d)"
  by simp

lemma getAlertSeverity_cases:
  "getAlertSeverity a =
     (if \<exists>k \<in> set (keywords_of ''SEVERE''). keyword_matches a k then ''severe''
      else if \<exists>k \<in> set (keywords_of ''MODERATE''). keyword_matches a k then ''moderate''
      else if \<exists>k \<in> set (keywords_of ''MINOR''). keyword_matches a k then ''minor''
      else ''moderate'')"
proof -
  have "getAlertSeverity a =
      (case level_loop (toLowerCase (event a)) (toLowerCase (description a)) SEVERITY_LEVELS of
         Some level \<Rightarrow> level | None \<Rightarrow> ''moderate'')"
    by (simp only: getAlertSeverity_def Let_def option.case_eq_if)
  also have "\<dots> = (if \<exists>k \<in> set (keywords_of ''SEVERE''). keyword_matches a k then ''severe''
      else if \<exists>k \<in> set (keywords_of ''MODERATE''). keyword_matches a k then ''moderate''
      else if \<exists>k \<in> set (keywords_of ''MINOR''). keyword_matches a k then ''minor''
      else ''moderate'')"
    by (simp only: SEVERITY_LEVELS_keywords level_loop3 keyword_loop_iff level_names case_if3)
  finally show ?thesis .
qed

lemma getAlertSeverity_find:
  "getAlertSeverity a =
     (case find (\<lambda>(level, k). keyword_matches a k) (table_entries SEVERITY_LEVELS) of
        Some (level, k) \<Rightarrow> toLowerCase level
      | None \<Rightarrow> ''moderate'')"
  by (simp add: getAlertSeverity_def level_loop_find split: option.split)

lemma no_entry_matches:
  "(\<forall>(level, k) \<in> set (table_entries SEVERITY_LEVELS). \<not> keyword_matches a k)
     = (\<not> (\<exists>k \<in> set (keywords_of ''SEVERE'' @ keywords_of ''MODERATE'' @ keywords_of ''MINOR'').
            keyword_matches a k))"
  by (auto simp add: table_entries_def SEVERITY_LEVELS_keywords)

text \<open>
  Claim C1. For every alert, whatever its event and description strings,
  \<open>getAlertSeverity\<close> returns one of \<open>severe\<close>, \<open>moderate\<close>, \<open>minor\<close>. The result is the
  level of the first entry of the keyword table, read in declaration order (the severe
  keywords, then the moderate ones, then the minor ones), whose keyword occurs, ignoring
  case, in the event or in the description; when no keyword occurs the result is
  \<open>moderate\<close>.
\<close>

theorem getAlertSeverity_first_match:
  "getAlertSeverity a \<in> {''severe'', ''moderate'', ''minor''}
   \<and> getAlertSeverity a =
       (case find (\<lambda>(level, k). keyword_matches a k) (table_entries SEVERITY_LEVELS) of
          Some (level, k) \<Rightarrow> toLowerCase level
        | None \<Rightarrow> ''moderate'')
   \<and> ((\<exists>k \<in> set (keywords_of ''SEVERE''). keyword_matches a k)
        \<longrightarrow> getAlertSeverity a = ''severe'')
   \<and> (\<not> (\<exists>k \<in> set (keywords_of ''SEVERE''). keyword_matches a k)
        \<and> (\<exists>k \<in> set (keywords_of ''MODERATE''). keyword_matches a k)
        \<longrightarrow> getAlertSeverity a = ''moderate'')
   \<and> (\<not> (\<exists>k \<in> set (keywords_of ''SEVERE'' @ keywords_of ''MODERATE''). keyword_matches a k)
        \<and> (\<exists>k \<in> set (keywords_of ''MINOR''). keyword_matches a k)
        \<longrightarrow> getAlertSeverity a = ''minor'')
   \<and> ((\<forall>(level, k) \<in> set (table_entries SEVERITY_LEVELS). \<not> keyword_matches a k)
        \<longrightarrow> getAlertSeverity a = ''moderate'')"
proof -
  have range: "getAlertSeverity a \<in> {''severe'', ''moderate'', ''minor''}"
    by (simp add: getAlertSeverity_cases)
  have sev: "getAlertSeverity a = ''severe''"
    if "\<exists>k \<in> set (keywords_of ''SEVERE''). keyword_matches a k"
    using that by (simp add: getAlertSeverity_cases)
  have mod: "getAlertSeverity a = ''moderate''"
    if "\<not> (\<exists>k \<in> set (keywords_of ''SEVERE''). keyword_matches a k)
        \<and> (\<exists>k \<in> set (keywords_of ''MODERATE''). keyword_matches a k)"
    using that by (simp add: getAlertSeverity_cases)
  have min: "getAlertSeverity a = ''minor''"
    if "\<not> (\<exists>k \<in> set (keywords_of ''SEVERE'' @ keywords_of ''MODERATE''). keyword_matches a k)
        \<and> (\<exists>k \<in> set (keywords_of ''MINOR''). keyword_matches a k)"
    using that by (simp add: getAlertSeverity_cases bex_Un)
  have none: "getAlertSeverity a = ''moderate''"
    if "\<forall>(level, k) \<in> set (table_entries SEVERITY_LEVELS). \<not> keyword_matches a k"
  proof -
    from that have no: "\<not> (\<exists>k \<in> set (keywords_of ''SEVERE'' @ keywords_of ''MODERATE''
        @ keywords_of ''MINOR''). keyword_matches a k)"
      unfolding no_entry_matches .
    have "\<not> (\<exists>k \<in> set (keywords_of ''SEVERE''). keyword_matches a k)"
      "\<not> (\<exists>k \<in> set (keywords_of ''MODERATE''). keyword_matches a k)"
      "\<not> (\<exists>k \<in> set (keywords_of ''MINOR''). keyword_matches a k)"
      using no by auto
    then show ?thesis
      by (simp only: getAlertSeverity_cases if_False)
  qed
  from range getAlertSeverity_find [of a] sev mod min none show ?thesis
    by (intro conjI impI)
qed

theorem getAlertSeverity_first_match_witness:
  "getAlertSeverity tornado_alert = ''severe''
   \<and> getAlertSeverity light_rain_alert = ''moderate''
   \<and> getAlertSeverity cloudy_alert = ''minor''
   \<and> getAlertSeverity heat_alert = ''moderate''"
proof -
  have s: "\<exists>k \<in> set (keywords_of ''SEVERE''). keyword_matches tornado_alert k"
    by code_simp
  have m: "\<not> (\<exists>k \<in> set (keywords_of ''SEVERE''). keyword_matches light_rain_alert k)
        \<and> (\<exists>k \<in> set (keywords_of ''MODERATE''). keyword_matches light_rain_alert k)"
    by code_simp
  have n: "\<not> (\<exists>k \<in> set (keywords_of ''SEVERE'' @ keywords_of ''MODERATE'').
              keyword_matches cloudy_alert k)
        \<and> (\<exists>k \<in> set (keywords_of ''MINOR''). keyword_matches cloudy_alert k)"
    by code_simp
  have d: "\<forall>(level, k) \<in> set (table_entries SEVERITY_LEVELS). \<not> keyword_matches heat_alert k"
    by code_simp
  have 1: "getAlertSeverity tornado_alert = ''severe''"
    using getAlertSeverity_first_match [of tornado_alert] s by (elim conjE) (erule (1) mp)
  have 2: "getAlertSeverity light_rain_alert = ''moderate''"
    using getAlertSeverity_first_match [of light_rain_alert] m by (elim conjE) (erule mp, erule (1) conjI)
  have 3: "getAlertSeverity cloudy_alert = ''minor''"
    using getAlertSeverity_first_match [of cloudy_alert] n by (elim conjE) (erule mp, erule (1) conjI)
  have 4: "getAlertSeverity heat_alert = ''moderate''"
    using getAlertSeverity_first_match [of heat_alert] d by (elim conjE) (erule (1) mp)
  from 1 2 3 4 show ?thesis by (intro conjI)
qed

section \<open>Temperature formatting: the proofs\<close>

lemma nts215: "nat_to_string 215 = ''215''" by code_simp

lemma toFixed_215:
  assumes "21.45 \<le> x" "x < 21.55"
  shows "toFixed x 1 = ''21.5''"
proof -
  have "\<lfloor>\<bar>x\<bar> * 10 ^ 1 + 1 / 2\<rfloor> = 215"
    using assms by (intro floor_unique) auto
  then show ?thesis
    using assms by (simp add: toFixed_def nts215 Let_def)
qed

lemma formatTemperature_metric:
  "formatTemperature new_WeatherService (Some x) = toFixed x 1 @ [CHR 0xB0] @ ''C''"
  by (simp add: formatTemperature_def new_WeatherService_def TEMPERATURE_DECIMAL_PLACES_def)

text \<open>
  Claim C8. Under metric units and one decimal place \<open>formatTemperature\<close> turns 21.549
  into the text \<open>21.5\<close> followed by the degree sign and \<open>C\<close> (and so does every number
  from 21.45 up to, not including, 21.55, whichever of them the double nearest to 21.549
  is); applied to \<open>null\<close> it returns the placeholder \<open>--\<close> under every unit setting.
\<close>

theorem formatTemperature_scenario:
  "(\<forall>x. 21.45 \<le> x \<and> x < 21.55 \<longrightarrow>
       formatTemperature new_WeatherService (Some x) = ''21.5'' @ [CHR 0xB0] @ ''C'')
   \<and> formatTemperature svc None = ''--''"
proof (intro conjI allI impI)
  fix x :: real
  assume "21.45 \<le> x \<and> x < 21.55"
  then have "toFixed x 1 = ''21.5''"
    by (intro toFixed_215) auto
  then show "formatTemperature new_WeatherService (Some x) = ''21.5'' @ [CHR 0xB0] @ ''C''"
    by (simp only: formatTemperature_metric)
next
  show "formatTemperature svc None = ''--''"
    by (simp add: formatTemperature_def)
qed

theorem formatTemperature_scenario_witness:
  "formatTemperature new_WeatherService (Some 21.549) = ''21.5'' @ [CHR 0xB0] @ ''C''
   \<and> formatTemperature new_WeatherService None = ''--''"
proof -
  have "(21.45::real) \<le> 21.549 \<and> (21.549::real) < 21.55"
    by simp
  with formatTemperature_scenario [of new_WeatherService] show ?thesis
    by blast
qed

section \<open>The combined forecast request: the proofs\<close>

lemma exclude_param_oneCall:
  "exclude_param (oneCall_request svc loc flag)
     = Some (PStr (if flag then ''minutely'' else ''minutely,hourly''))"
  by (simp add: exclude_param_def oneCall_request_def)

lemma getOneCallData_ok:
  "fetch (oneCall_request svc loc flag) = Inr resp \<Longrightarrow> ok resp
     \<Longrightarrow> getOneCallData svc fetch loc flag = Inr (json resp)"
  by (simp add: getOneCallData_def)

lemma getOneCallData_Inr:
  "getOneCallData svc fetch loc flag = Inr d
     \<Longrightarrow> \<exists>resp. fetch (oneCall_request svc loc flag) = Inr resp \<and> ok resp \<and> d = json resp"
  by (auto simp: getOneCallData_def split: sum.splits if_splits)

text \<open>
  Claim C6, as amended. The include-hourly flag sets the \<open>exclude\<close> parameter of the
  request: \<open>minutely\<close> when the flag is true, \<open>minutely,hourly\<close> when it is false. The
  gateway returns the body of a successful response as the provider sent it, so with the
  flag false the result has no hourly entries whenever the provider honours the
  parameter.
\<close>

theorem getOneCallData_exclude:
  "exclude_param (oneCall_request svc loc True) = Some (PStr ''minutely'')
   \<and> exclude_param (oneCall_request svc loc False) = Some (PStr ''minutely,hourly'')
   \<and> (\<forall>resp. fetch (oneCall_request svc loc flag) = Inr resp \<and> ok resp
         \<longrightarrow> getOneCallData svc fetch loc flag = Inr (json resp))
   \<and> (honours_exclude fetch
         \<longrightarrow> (\<forall>d. getOneCallData svc fetch loc False = Inr d \<longrightarrow> hourly_entries d = []))"
proof (intro conjI allI impI)
  fix d
  assume h: "honours_exclude fetch" and d: "getOneCallData svc fetch loc False = Inr d"
  from getOneCallData_Inr [OF d] obtain resp
    where r: "fetch (oneCall_request svc loc False) = Inr resp" "d = json resp"
    by blast
  have "exclude_param (oneCall_request svc loc False) = Some (PStr ''minutely,hourly'')"
    by (simp add: exclude_param_oneCall)
  with h r show "hourly_entries d = []"
    unfolding honours_exclude_def by blast
qed (simp_all add: exclude_param_oneCall getOneCallData_ok)

theorem getOneCallData_exclude_witness:
  "honours_exclude honouring_provider
   \<and> getOneCallData new_WeatherService honouring_provider new_york False
       = Inr (sample_onecall\<lparr>onecall.hourly := None\<rparr>)
   \<and> hourly_entries (sample_onecall\<lparr>onecall.hourly := None\<rparr>) = []"
proof -
  have h: "honours_exclude honouring_provider"
    by (simp add: honours_exclude_def honouring_provider_def hourly_entries_def)
  have r: "honouring_provider (oneCall_request new_WeatherService new_york False)
      = Inr \<lparr>ok = True, status = 200, statusText = ''OK'',
             json = sample_onecall\<lparr>onecall.hourly := None\<rparr>\<rparr>"
    by (simp add: honouring_provider_def exclude_param_oneCall)
  from getOneCallData_exclude [of new_WeatherService new_york honouring_provider False]
  have pass: "getOneCallData new_WeatherService honouring_provider new_york False
      = Inr (sample_onecall\<lparr>onecall.hourly := None\<rparr>)"
    using r by simp
  from getOneCallData_exclude [of new_WeatherService new_york honouring_provider False] h pass
  have "hourly_entries (sample_onecall\<lparr>onecall.hourly := None\<rparr>) = []"
    by blast
  with h pass show ?thesis by blast
qed

theorem getOneCallData_hourly_counterexample:
  "getOneCallData new_WeatherService ignoring_provider new_york False = Inr sample_onecall
   \<and> hourly_entries sample_onecall = [\<lparr>h_dt = 3600, h_temp = 15\<rparr>]"
  by (simp add: getOneCallData_def ignoring_provider_def hourly_entries_def sample_onecall_def)

section \<open>Location search: the proofs\<close>

lemma currentLocation_setTimeout [simp]:
  "currentLocation (snd (setTimeout k d w)) = currentLocation w"
  by (simp add: setTimeout_def)

lemma currentLocation_setInterval [simp]:
  "currentLocation (snd (setInterval k d w)) = currentLocation w"
  by (simp add: setInterval_def)

lemma currentLocation_clearTimer [simp]: "currentLocation (clearTimer i w) = currentLocation w"
  by (simp add: clearTimer_def)

lemma currentLocation_showError [simp]: "currentLocation (showError m w) = currentLocation w"
  by (simp add: showError_def)

lemma currentLocation_hideLoading [simp]: "currentLocation (hideLoading w) = currentLocation w"
  by (simp add: hideLoading_def)

lemma currentLocation_showLoading [simp]: "currentLocation (showLoading w) = currentLocation w"
  by (simp add: showLoading_def)

lemma currentLocation_notify_alert [simp]:
  "currentLocation (fst (notify_alert st a)) = currentLocation (fst st)"
  by (simp add: notify_alert_def Let_def)

lemma currentLocation_foldl_notify:
  "currentLocation (fst (foldl notify_alert st as)) = currentLocation (fst st)"
  by (induction as arbitrary: st) simp_all

lemma currentLocation_showAlertNotifications [simp]:
  "currentLocation (showAlertNotifications as w) = currentLocation w"
  by (simp add: showAlertNotifications_def Let_def currentLocation_foldl_notify)

lemma currentLocation_processAlerts [simp]:
  "currentLocation (processAlerts w) = currentLocation w"
  by (simp add: processAlerts_def split: option.split)

lemma currentLocation_startAlertChecking [simp]:
  "currentLocation (startAlertChecking w) = currentLocation w"
  by (simp add: startAlertChecking_def Let_def split: option.split)

lemma currentLocation_setupAutoRefresh [simp]:
  "currentLocation (setupAutoRefresh w) = currentLocation w"
  by (simp add: setupAutoRefresh_def Let_def split: option.split)

lemma currentLocation_fetchWeatherData [simp]:
  "currentLocation (fetchWeatherData svc foc fcw w) = currentLocation w"
  by (simp add: fetchWeatherData_def Let_def split: option.split sum.split)

lemma currentLocation_WeatherApp_saveLocation [simp]:
  "currentLocation (WeatherApp_saveLocation w) = currentLocation w"
  by (simp add: WeatherApp_saveLocation_def split: option.split)

lemma searchLocation_Inr:
  "WeatherService_searchLocation svc fetch q = Inr ls
     \<Longrightarrow> \<exists>resp. fetch (geocoding_request svc q) = Inr resp \<and> ok resp \<and> ls = json resp
           \<and> ls \<noteq> []"
  by (auto simp: WeatherService_searchLocation_def Let_def split: sum.splits if_splits)

lemma searchLocation_NotFound:
  "(\<exists>m. WeatherService_searchLocation svc fetch q = Inl (NotFoundError m))
     = (\<exists>resp. fetch (geocoding_request svc q) = Inr resp \<and> ok resp \<and> json resp = [])"
  by (auto simp: WeatherService_searchLocation_def Let_def split: sum.splits if_splits)

lemma WeatherApp_searchLocation_first:
  "WeatherService_searchLocation svc fetch q = Inr (c # cs)
     \<Longrightarrow> WeatherApp_searchLocation svc fetch foc fcw q w
         = hideLoading (fetchWeatherData svc foc fcw (WeatherApp_saveLocation
             ((showLoading w)\<lparr>requests := requests (showLoading w) @ [geocoding_request svc q],
                currentLocation := Some \<lparr>lat = lat c, lon = lon c, name = name c,
                                          country = country c\<rparr>\<rparr>)))"
  by (simp add: WeatherApp_searchLocation_def Let_def)

text \<open>
  Claim C7, as amended. \<open>searchLocation\<close> asks the provider for at most 5 candidates
  (\<open>limit = 5\<close>) and returns the candidates of a successful, non-empty response unchanged
  and in the provider's order, so at most 5 whenever the provider sends at most 5; it
  fails with the not-found error exactly when the provider answers successfully with no
  candidate; and the caller makes the first candidate the current location, the others
  having no influence on the state it reaches.
\<close>

theorem searchLocation_candidates:
  "map_of (params (geocoding_request svc q)) ''limit'' = Some (PNum 5)
   \<and> ((\<exists>m. WeatherService_searchLocation svc fetch q = Inl (NotFoundError m))
        = (\<exists>resp. fetch (geocoding_request svc q) = Inr resp \<and> ok resp \<and> json resp = []))
   \<and> (\<forall>resp. fetch (geocoding_request svc q) = Inr resp \<and> ok resp \<and> json resp \<noteq> []
         \<longrightarrow> WeatherService_searchLocation svc fetch q = Inr (json resp))
   \<and> (\<forall>resp ls. fetch (geocoding_request svc q) = Inr resp \<and> length (json resp) \<le> 5
           \<and> WeatherService_searchLocation svc fetch q = Inr ls
         \<longrightarrow> length ls \<le> 5)
   \<and> (\<forall>c cs. WeatherService_searchLocation svc fetch q = Inr (c # cs)
         \<longrightarrow> currentLocation (WeatherApp_searchLocation svc fetch foc fcw q w)
               = Some \<lparr>lat = lat c, lon = lon c, name = name c, country = country c\<rparr>
             \<and> (\<forall>fetch' cs'. WeatherService_searchLocation svc fetch' q = Inr (c # cs')
                   \<longrightarrow> WeatherApp_searchLocation svc fetch' foc fcw q w
                         = WeatherApp_searchLocation svc fetch foc fcw q w))"
proof (intro conjI allI impI)
  show "map_of (params (geocoding_request svc q)) ''limit'' = Some (PNum 5)"
    by (simp add: geocoding_request_def)
  show "(\<exists>m. WeatherService_searchLocation svc fetch q = Inl (NotFoundError m))
        = (\<exists>resp. fetch (geocoding_request svc q) = Inr resp \<and> ok resp \<and> json resp = [])"
    by (rule searchLocation_NotFound)
next
  fix resp
  assume "fetch (geocoding_request svc q) = Inr resp \<and> ok resp \<and> json resp \<noteq> []"
  then show "WeatherService_searchLocation svc fetch q = Inr (json resp)"
    by (simp add: WeatherService_searchLocation_def)
next
  fix resp ls
  assume a: "fetch (geocoding_request svc q) = Inr resp \<and> length (json resp) \<le> 5
           \<and> WeatherService_searchLocation svc fetch q = Inr ls"
  then obtain resp' where "fetch (geocoding_request svc q) = Inr resp'" "ls = json resp'"
    using searchLocation_Inr by blast
  with a show "length ls \<le> 5" by simp
next
  fix c cs
  assume r: "WeatherService_searchLocation svc fetch q = Inr (c # cs)"
  show "currentLocation (WeatherApp_searchLocation svc fetch foc fcw q w)
               = Some \<lparr>lat = lat c, lon = lon c, name = name c, country = country c\<rparr>"
    by (simp add: WeatherApp_searchLocation_first [OF r])
next
  fix c cs fetch' cs'
  assume r: "WeatherService_searchLocation svc fetch q = Inr (c # cs)"
    and r': "WeatherService_searchLocation svc fetch' q = Inr (c # cs')"
  show "WeatherApp_searchLocation svc fetch' foc fcw q w
                         = WeatherApp_searchLocation svc fetch foc fcw q w"
    by (simp only: WeatherApp_searchLocation_first [OF r] WeatherApp_searchLocation_first [OF r'])
qed

theorem searchLocation_candidates_witness:
  "WeatherService_searchLocation new_WeatherService two_provider ''Springfield''
     = Inr two_candidates
   \<and> length two_candidates \<le> 5
   \<and> currentLocation (WeatherApp_searchLocation new_WeatherService two_provider
        failing_onecall failing_current ''Springfield'' initial_world)
       = Some \<lparr>lat = 39.8, lon = - 89.6, name = ''Springfield'', country = ''US''\<rparr>
   \<and> WeatherApp_searchLocation new_WeatherService generous_provider
        failing_onecall failing_current ''Springfield'' initial_world
       = WeatherApp_searchLocation new_WeatherService two_provider
        failing_onecall failing_current ''Springfield'' initial_world"
proof -
  let ?req = "geocoding_request new_WeatherService ''Springfield''"
  let ?resp = "\<lparr>ok = True, status = 200, statusText = ''OK'', json = two_candidates\<rparr>"
  let ?c = "\<lparr>lat = 39.8, lon = - 89.6, name = ''Springfield'', country = ''US''\<rparr>"
  let ?cs = "[\<lparr>lat = 43.3, lon = - 80.1, name = ''Springfield'', country = ''CA''\<rparr>]"
  note inst = searchLocation_candidates [of new_WeatherService "''Springfield''" two_provider
      failing_onecall failing_current initial_world]
  have f: "two_provider ?req = Inr ?resp \<and> ok ?resp \<and> json ?resp \<noteq> []"
    by (simp add: two_provider_def two_candidates_def)
  with inst have r: "WeatherService_searchLocation new_WeatherService two_provider ''Springfield''
      = Inr two_candidates"
    by (metis response.select_convs(4))
  have l: "length (json ?resp) \<le> 5"
    by (simp add: two_candidates_def)
  from inst f l r have len: "length two_candidates \<le> 5"
    by blast
  have two: "two_candidates = ?c # ?cs"
    by (simp add: two_candidates_def)
  have six: "WeatherService_searchLocation new_WeatherService generous_provider ''Springfield''
      = Inr (?c # tl six_candidates)"
    by (simp add: WeatherService_searchLocation_def generous_provider_def six_candidates_def)
  from inst r two
  have first: "currentLocation (WeatherApp_searchLocation new_WeatherService two_provider
        failing_onecall failing_current ''Springfield'' initial_world)
       = Some \<lparr>lat = lat ?c, lon = lon ?c, name = name ?c, country = country ?c\<rparr>"
    and rest: "\<forall>fetch' cs'.
        WeatherService_searchLocation new_WeatherService fetch' ''Springfield'' = Inr (?c # cs')
        \<longrightarrow> WeatherApp_searchLocation new_WeatherService fetch'
              failing_onecall failing_current ''Springfield'' initial_world
            = WeatherApp_searchLocation new_WeatherService two_provider
              failing_onecall failing_current ''Springfield'' initial_world"
    by metis+
  from first have "currentLocation (WeatherApp_searchLocation new_WeatherService two_provider
        failing_onecall failing_current ''Springfield'' initial_world) = Some ?c"
    by simp
  moreover from rest six
  have "WeatherApp_searchLocation new_WeatherService generous_provider
        failing_onecall failing_current ''Springfield'' initial_world
       = WeatherApp_searchLocation new_WeatherService two_provider
        failing_onecall failing_current ''Springfield'' initial_world"
    by blast
  ultimately show ?thesis
    using r len by blast
qed

theorem searchLocation_limit_counterexample:
  "WeatherService_searchLocation new_WeatherService generous_provider ''Springfield''
     = Inr six_candidates
   \<and> length six_candidates = 6"
  by (simp add: WeatherService_searchLocation_def generous_provider_def six_candidates_def)

section \<open>Fetching the snapshot: the proofs\<close>

lemma weatherData_setTimeout [simp]: "weatherData (snd (setTimeout k d w)) = weatherData w"
  by (simp add: setTimeout_def)

lemma weatherData_setInterval [simp]: "weatherData (snd (setInterval k d w)) = weatherData w"
  by (simp add: setInterval_def)

lemma weatherData_clearTimer [simp]: "weatherData (clearTimer i w) = weatherData w"
  by (simp add: clearTimer_def)

lemma weatherData_showError [simp]: "weatherData (showError m w) = weatherData w"
  by (simp add: showError_def)

lemma weatherData_hideLoading [simp]: "weatherData (hideLoading w) = weatherData w"
  by (simp add: hideLoading_def)

lemma weatherData_showLoading [simp]: "weatherData (showLoading w) = weatherData w"
  by (simp add: showLoading_def)

lemma weatherData_notify_alert [simp]:
  "weatherData (fst (notify_alert st a)) = weatherData (fst st)"
  by (simp add: notify_alert_def Let_def)

lemma weatherData_foldl_notify:
  "weatherData (fst (foldl notify_alert st as)) = weatherData (fst st)"
  by (induction as arbitrary: st) simp_all

lemma weatherData_showAlertNotifications [simp]:
  "weatherData (showAlertNotifications as w) = weatherData w"
  by (simp add: showAlertNotifications_def Let_def weatherData_foldl_notify)

lemma weatherData_processAlerts [simp]: "weatherData (processAlerts w) = weatherData w"
  by (simp add: processAlerts_def split: option.split)

lemma weatherData_startAlertChecking [simp]:
  "weatherData (startAlertChecking w) = weatherData w"
  by (simp add: startAlertChecking_def Let_def split: option.split)

lemma weatherData_setupAutoRefresh [simp]: "weatherData (setupAutoRefresh w) = weatherData w"
  by (simp add: setupAutoRefresh_def Let_def split: option.split)

lemma getOneCallData_failed:
  "failed (fetch (oneCall_request svc loc flag))
     = (\<exists>e. getOneCallData svc fetch loc flag = Inl e)"
  by (simp add: failed_def getOneCallData_def split: sum.split)

lemma getCurrentWeather_failed:
  "failed (fetch (currentWeather_request svc loc))
     = (\<exists>e. getCurrentWeather svc fetch loc = Inl e)"
  by (simp add: failed_def getCurrentWeather_def split: sum.split)

lemma getOneCallData_served:
  "fetch (oneCall_request svc loc flag) = Inr resp \<Longrightarrow> \<not> failed (Inr resp :: string + onecall response)
     \<Longrightarrow> getOneCallData svc fetch loc flag = Inr (json resp)"
  by (simp add: failed_def getOneCallData_def)

lemma getCurrentWeather_served:
  "fetch (currentWeather_request svc loc) = Inr resp
     \<Longrightarrow> \<not> failed (Inr resp :: string + current_weather response)
     \<Longrightarrow> getCurrentWeather svc fetch loc = Inr (json resp)"
  by (simp add: failed_def getCurrentWeather_def)

lemma fetchWeatherData_failure:
  assumes "currentLocation w = Some loc"
    and "failed (foc (oneCall_request svc loc True)) \<or> failed (fcw (currentWeather_request svc loc))"
  shows "weatherData (fetchWeatherData svc foc fcw w) = weatherData w"
    and "errorVisible (fetchWeatherData svc foc fcw w)"
  using assms
  by (auto simp: fetchWeatherData_def Let_def getOneCallData_failed getCurrentWeather_failed
        showError_def setTimeout_def hideLoading_def showLoading_def
      split: sum.split)

lemma fetchWeatherData_success:
  assumes "currentLocation w = Some loc"
    and "foc (oneCall_request svc loc True) = Inr r1" "ok r1"
    and "fcw (currentWeather_request svc loc) = Inr r2" "ok r2"
  shows "weatherData (fetchWeatherData svc foc fcw w)
     = Some \<lparr>current = json r2, forecast = daily (json r1),
             hourly = hourly_entries (json r1), alerts = alerts_entries (json r1)\<rparr>"
  using assms
  by (simp add: fetchWeatherData_def Let_def getOneCallData_def getCurrentWeather_def
      hourly_entries_def alerts_entries_def)

text \<open>
  Claim C3. A fetch for the active location replaces the snapshot only when both requests
  succeed, and then all four parts (current, forecast, hourly, alerts) come from the new
  responses; when either request fails the snapshot held before is left as it was and the
  error is shown. Without an active location nothing happens.
\<close>

theorem fetchWeatherData_atomic:
  "(currentLocation w = Some loc
      \<and> (failed (foc (oneCall_request svc loc True))
          \<or> failed (fcw (currentWeather_request svc loc)))
     \<longrightarrow> weatherData (fetchWeatherData svc foc fcw w) = weatherData w
         \<and> errorVisible (fetchWeatherData svc foc fcw w))
   \<and> (currentLocation w = Some loc
      \<and> foc (oneCall_request svc loc True) = Inr r1 \<and> ok r1
      \<and> fcw (currentWeather_request svc loc) = Inr r2 \<and> ok r2
     \<longrightarrow> weatherData (fetchWeatherData svc foc fcw w)
           = Some \<lparr>current = json r2, forecast = daily (json r1),
                   hourly = hourly_entries (json r1), alerts = alerts_entries (json r1)\<rparr>)
   \<and> (currentLocation w = None \<longrightarrow> fetchWeatherData svc foc fcw w = w)"
  using fetchWeatherData_failure [of w loc foc svc fcw]
    fetchWeatherData_success [of w loc foc svc r1 fcw r2]
  by (auto simp: fetchWeatherData_def)

subsection \<open>The state after a first fetch, and a refresh that fails\<close>

lemma toUpper_severe: "toUpperCase ''severe'' = ''SEVERE''"
  by code_simp

lemma severity_tornado: "getAlertSeverity tornado_alert = ''severe''"
  by code_simp

lemma alertId_tornado: "alertId tornado_alert = ''Tornado Warning-1000-2000''"
  by code_simp

lemma nat_to_string_500: "nat_to_string 500 = ''500''"
  by code_simp

lemmas scheduler_defs = fetchWeatherData_def Let_def getOneCallData_def getCurrentWeather_def
  showLoading_def hideLoading_def showError_def processAlerts_def showAlertNotifications_def
  stored_shownAlerts_def newAlerts_def notify_alert_def startAlertChecking_def
  setInterval_def setTimeout_def setupAutoRefresh_def clearTimer_def
  CHECK_INTERVAL_def REFRESH_INTERVAL_def

lemma armed_world_eq:
  "armed_world =
     \<lparr>currentLocation = Some new_york,
      weatherData = Some \<lparr>current = sample_current,
                           forecast = [\<lparr>d_dt = 86400, d_temp_min = 10, d_temp_max = 20\<rparr>],
                           hourly = [\<lparr>h_dt = 3600, h_temp = 15\<rparr>],
                           alerts = [tornado_alert]\<rparr>,
      alertCheckInterval = Some 1, refreshTimer = Some 2, alertsToggle_checked = True,
      loading = False, errorText = [], errorVisible = False, permission = granted, now = 0,
      next_id = 3,
      timers = [\<lparr>tid = 1, kind = AlertCheck, due = 900000, period = Some 900000\<rparr>,
                \<lparr>tid = 2, kind = Refresh, due = 1800000, period = None\<rparr>],
      notifications = [alert_notification tornado_alert], console = [],
      requests = [oneCall_request new_WeatherService new_york True,
                  currentWeather_request new_WeatherService new_york],
      shownAlerts = Some [''Tornado Warning-1000-2000''], weatherLocation = None\<rparr>"
  by (simp add: armed_world_def initial_world_def scheduler_defs serving_onecall_def
      serving_current_def sample_onecall_def alertId_tornado severity_tornado)

lemma fetch_failure_timers:
  assumes "currentLocation w = Some loc"
    and "failed (foc (oneCall_request svc loc True)) \<or> failed (fcw (currentWeather_request svc loc))"
  shows "timers (fetchWeatherData svc foc fcw w)
     = timers w @ [\<lparr>tid = next_id w, kind = HideError, due = now w + 5000, period = None\<rparr>]"
  using assms
  by (auto simp: fetchWeatherData_def Let_def getOneCallData_failed getCurrentWeather_failed
        showError_def setTimeout_def hideLoading_def showLoading_def
      split: sum.split)

text \<open>
  Whatever the state, when a pending refresh timeout fires and a request of its fetch
  fails, the refresh timers pending afterwards are those that were pending besides the
  one that fired: the failed fetch arms none.
\<close>

lemma failed_refresh_arms_no_timer:
  assumes "find (\<lambda>t. tid t = i) (timers w) = Some t" "kind t = Refresh" "period t = None"
    and "currentLocation w = Some loc"
    and "failed (foc (oneCall_request svc loc True)) \<or> failed (fcw (currentWeather_request svc loc))"
  shows "filter (\<lambda>t. kind t = Refresh) (timers (fire svc foc fcw i w))
     = filter (\<lambda>t. kind t = Refresh) (filter (\<lambda>t. tid t \<noteq> i) (timers w))"
proof -
  let ?w1 = "w\<lparr>now := max (now w) (due t), timers := filter (\<lambda>u. tid u \<noteq> i) (timers w)\<rparr>"
  have "fire svc foc fcw i w = fetchWeatherData svc foc fcw ?w1"
    using assms(1-4) by (simp add: fire_def refresh_callback_def)
  moreover have "currentLocation ?w1 = Some loc"
    using assms(4) by simp
  ultimately show ?thesis
    using assms(5) by (simp add: fetch_failure_timers [where loc = loc])
qed

theorem fetchWeatherData_atomic_witness:
  "weatherData (fetchWeatherData new_WeatherService failing_onecall serving_current armed_world)
     = weatherData armed_world
   \<and> weatherData armed_world
       = Some \<lparr>current = sample_current,
               forecast = [\<lparr>d_dt = 86400, d_temp_min = 10, d_temp_max = 20\<rparr>],
               hourly = [\<lparr>h_dt = 3600, h_temp = 15\<rparr>],
               alerts = [tornado_alert]\<rparr>
   \<and> fetchWeatherData new_WeatherService serving_onecall serving_current initial_world
       = initial_world"
proof -
  let ?r1 = "\<lparr>ok = True, status = 200, statusText = ''OK'',
          json = sample_onecall\<lparr>onecall.alerts := Some [tornado_alert]\<rparr>\<rparr>"
  let ?r2 = "\<lparr>ok = True, status = 200, statusText = ''OK'', json = sample_current\<rparr>"
  have loc: "currentLocation armed_world = Some new_york"
    by (simp add: armed_world_eq)
  have "failed (failing_onecall (oneCall_request new_WeatherService new_york True))"
    by (simp add: failed_def failing_onecall_def)
  with loc fetchWeatherData_atomic [of armed_world new_york failing_onecall new_WeatherService
      serving_current]
  have 1: "weatherData (fetchWeatherData new_WeatherService failing_onecall serving_current
      armed_world) = weatherData armed_world"
    by blast
  have "currentLocation (initial_world\<lparr>currentLocation := Some new_york\<rparr>) = Some new_york"
    "serving_onecall (oneCall_request new_WeatherService new_york True) = Inr ?r1" "ok ?r1"
    "serving_current (currentWeather_request new_WeatherService new_york) = Inr ?r2" "ok ?r2"
    by (simp_all add: serving_onecall_def serving_current_def)
  with fetchWeatherData_atomic [of "initial_world\<lparr>currentLocation := Some new_york\<rparr>" new_york
      serving_onecall new_WeatherService serving_current ?r1 ?r2]
  have "weatherData armed_world
      = Some \<lparr>current = json ?r2, forecast = daily (json ?r1),
              hourly = hourly_entries (json ?r1), alerts = alerts_entries (json ?r1)\<rparr>"
    unfolding armed_world_def by blast
  then have 2: "weatherData armed_world
       = Some \<lparr>current = sample_current,
               forecast = [\<lparr>d_dt = 86400, d_temp_min = 10, d_temp_max = 20\<rparr>],
               hourly = [\<lparr>h_dt = 3600, h_temp = 15\<rparr>],
               alerts = [tornado_alert]\<rparr>"
    by (simp add: sample_onecall_def hourly_entries_def alerts_entries_def)
  have "currentLocation initial_world = None"
    by (simp add: initial_world_def)
  with fetchWeatherData_atomic [of initial_world new_york serving_onecall new_WeatherService
      serving_current]
  have 3: "fetchWeatherData new_WeatherService serving_onecall serving_current initial_world
      = initial_world"
    by blast
  from 1 2 3 show ?thesis by blast
qed

lemma quiet_world_eq:
  "quiet_world =
     \<lparr>currentLocation = Some new_york,
      weatherData = Some \<lparr>current = sample_current,
                           forecast = [\<lparr>d_dt = 86400, d_temp_min = 10, d_temp_max = 20\<rparr>],
                           hourly = [\<lparr>h_dt = 3600, h_temp = 15\<rparr>],
                           alerts = [tornado_alert]\<rparr>,
      alertCheckInterval = None, refreshTimer = Some 1, alertsToggle_checked = True,
      loading = False, errorText = [], errorVisible = False, permission = default_permission,
      now = 0, next_id = 2,
      timers = [\<lparr>tid = 1, kind = Refresh, due = 1800000, period = None\<rparr>],
      notifications = [], console = [],
      requests = [oneCall_request new_WeatherService new_york True,
                  currentWeather_request new_WeatherService new_york],
      shownAlerts = None, weatherLocation = None\<rparr>"
  by (simp add: quiet_world_def initial_world_def scheduler_defs serving_onecall_def
      serving_current_def sample_onecall_def)

text \<open>
  Claim C4, on the code. In \<open>quiet_world\<close> the refresh timer (id 1) is the one pending
  timer, due one refresh interval (30 minutes) after the fetch that armed it. It fires and
  the OneCall request of its fetch is answered with status 500: the error is shown and the
  snapshot is the one held before, but the only timer pending afterwards is the one that
  hides the error message. No refresh is scheduled, where the claim says the next one
  still is.
\<close>

theorem failed_refresh_not_rescheduled:
  "timers quiet_world = [\<lparr>tid = 1, kind = Refresh, due = 1800000, period = None\<rparr>]
   \<and> REFRESH_INTERVAL = 1800000
   \<and> errorVisible (fire new_WeatherService failing_onecall serving_current 1 quiet_world)
   \<and> errorText (fire new_WeatherService failing_onecall serving_current 1 quiet_world)
       = ''OneCall API error: 500 Internal Server Error''
   \<and> weatherData (fire new_WeatherService failing_onecall serving_current 1 quiet_world)
       = weatherData quiet_world
   \<and> now (fire new_WeatherService failing_onecall serving_current 1 quiet_world) = 1800000
   \<and> timers (fire new_WeatherService failing_onecall serving_current 1 quiet_world)
       = [\<lparr>tid = 2, kind = HideError, due = 1805000, period = None\<rparr>]"
  by (simp add: quiet_world_eq fire_def refresh_callback_def scheduler_defs failing_onecall_def
      nat_to_string_500)

section \<open>Switching the alert poll off and on: the proofs\<close>

lemma ok_add_other:
  assumes "timers_ok ts n a r" "k \<noteq> AlertCheck" "k \<noteq> Refresh"
  shows "timers_ok (ts @ [\<lparr>tid = n, kind = k, due = d, period = p\<rparr>]) (Suc n) a r"
  using assms unfolding timers_ok_def by (auto simp: less_Suc_eq)

lemma ok_remove:
  assumes "timers_ok ts n a r"
  shows "timers_ok (filter (\<lambda>t. tid t \<noteq> i) ts) n a r"
  using assms unfolding timers_ok_def by (auto simp: distinct_map_filter)

lemma ok_clear_alert:
  assumes "timers_ok ts n a r"
  shows "timers_ok (case a of Some i \<Rightarrow> filter (\<lambda>t. tid t \<noteq> i) ts | None \<Rightarrow> ts) n None r"
  using assms unfolding timers_ok_def by (cases a) (auto simp: distinct_map_filter)

lemma ok_clear_refresh:
  assumes "timers_ok ts n a r"
  shows "timers_ok (case r of Some i \<Rightarrow> filter (\<lambda>t. tid t \<noteq> i) ts | None \<Rightarrow> ts) n a None"
  using assms unfolding timers_ok_def by (cases r) (auto simp: distinct_map_filter)

lemma ok_add_alert:
  assumes "timers_ok ts n None r"
  shows "timers_ok (ts @ [\<lparr>tid = n, kind = AlertCheck, due = d, period = p\<rparr>]) (Suc n) (Some n) r"
  using assms unfolding timers_ok_def by (auto simp: less_Suc_eq)

lemma ok_add_refresh:
  assumes "timers_ok ts n a None"
  shows "timers_ok (ts @ [\<lparr>tid = n, kind = Refresh, due = d, period = p\<rparr>]) (Suc n) a (Some n)"
  using assms unfolding timers_ok_def by (auto simp: less_Suc_eq)

lemma ok_reschedule:
  assumes "timers_ok ts n a r"
  shows "timers_ok (map (\<lambda>u. if tid u = i then u\<lparr>due := due u + p\<rparr> else u) ts) n a r"
proof -
  define f :: "timer \<Rightarrow> timer" where "f = (\<lambda>u. if tid u = i then u\<lparr>due := due u + p\<rparr> else u)"
  have t: "tid (f u) = tid u" and k: "kind (f u) = kind u" for u
    by (simp_all add: f_def)
  have "timers_ok (map f ts) n a r"
    using assms unfolding timers_ok_def by (simp add: t k comp_def)
  then show ?thesis
    by (simp only: f_def)
qed

lemma toggleAlerts_off:
  "toggleAlerts False w =
     (case alertCheckInterval w of
        Some i \<Rightarrow> w\<lparr>timers := filter (\<lambda>t. tid t \<noteq> i) (timers w), alertCheckInterval := None\<rparr>
      | None \<Rightarrow> w)"
  by (simp add: toggleAlerts_def clearTimer_def split: option.split)

lemma toggleAlerts_on:
  "toggleAlerts True w =
     w\<lparr>timers := (case alertCheckInterval w of
                    Some i \<Rightarrow> filter (\<lambda>t. tid t \<noteq> i) (timers w)
                  | None \<Rightarrow> timers w)
                 @ [\<lparr>tid = next_id w, kind = AlertCheck, due = now w + CHECK_INTERVAL,
                     period = Some CHECK_INTERVAL\<rparr>],
       next_id := next_id w + 1,
       alertCheckInterval := Some (next_id w)\<rparr>"
  by (simp add: toggleAlerts_def startAlertChecking_def clearTimer_def setInterval_def Let_def
      split: option.split)

lemma wf_off_others:
  assumes "timers_wf w"
  shows "filter (\<lambda>t. kind t \<noteq> AlertCheck) (timers (toggleAlerts False w))
     = filter (\<lambda>t. kind t \<noteq> AlertCheck) (timers w)"
proof (cases "alertCheckInterval w")
  case None
  then show ?thesis by (simp add: toggleAlerts_off)
next
  case (Some i)
  have "\<forall>t \<in> set (timers w). (kind t = AlertCheck) = (tid t = i)"
    using assms Some by (auto simp: timers_wf_def timers_ok_def)
  then have "filter (\<lambda>t. kind t \<noteq> AlertCheck) (filter (\<lambda>t. tid t \<noteq> i) (timers w))
      = filter (\<lambda>t. kind t \<noteq> AlertCheck) (timers w)"
    by (auto intro: filter_cong)
  then show ?thesis
    using Some by (simp add: toggleAlerts_off)
qed

lemma wf_off_alert:
  assumes "timers_wf w"
  shows "filter (\<lambda>t. kind t = AlertCheck) (timers (toggleAlerts False w)) = []"
proof (cases "alertCheckInterval w")
  case None
  with assms show ?thesis
    by (auto simp: toggleAlerts_off timers_wf_def timers_ok_def filter_empty_conv)
next
  case (Some i)
  with assms show ?thesis
    by (auto simp: toggleAlerts_off timers_wf_def timers_ok_def filter_empty_conv)
qed

lemma wf_on_alert:
  assumes "timers_wf w"
  shows "filter (\<lambda>t. kind t = AlertCheck) (timers (toggleAlerts True w))
     = [\<lparr>tid = next_id w, kind = AlertCheck, due = now w + CHECK_INTERVAL,
         period = Some CHECK_INTERVAL\<rparr>]"
proof (cases "alertCheckInterval w")
  case None
  with assms show ?thesis
    by (auto simp: toggleAlerts_on timers_wf_def timers_ok_def filter_empty_conv)
next
  case (Some i)
  with assms show ?thesis
    by (auto simp: toggleAlerts_on timers_wf_def timers_ok_def filter_empty_conv)
qed

lemma wf_on_others:
  assumes "timers_wf w"
  shows "filter (\<lambda>t. kind t \<noteq> AlertCheck) (timers (toggleAlerts True w))
     = filter (\<lambda>t. kind t \<noteq> AlertCheck) (timers w)"
proof (cases "alertCheckInterval w")
  case None
  then show ?thesis by (simp add: toggleAlerts_on)
next
  case (Some i)
  have "\<forall>t \<in> set (timers w). (kind t = AlertCheck) = (tid t = i)"
    using assms Some by (auto simp: timers_wf_def timers_ok_def)
  then have "filter (\<lambda>t. kind t \<noteq> AlertCheck) (filter (\<lambda>t. tid t \<noteq> i) (timers w))
      = filter (\<lambda>t. kind t \<noteq> AlertCheck) (timers w)"
    by (auto intro: filter_cong)
  then show ?thesis
    using Some by (simp add: toggleAlerts_on)
qed

subsection \<open>The timer invariant holds in every state the scheduler reaches\<close>

lemma wf_initial_world: "timers_wf initial_world"
  by (simp add: timers_wf_def timers_ok_def initial_world_def)

lemma wf_setTimeout:
  assumes "timers_wf w" "k \<noteq> AlertCheck" "k \<noteq> Refresh"
  shows "timers_wf (snd (setTimeout k d w))"
  using ok_add_other [OF assms(1) [unfolded timers_wf_def] assms(2,3)]
  by (simp add: timers_wf_def setTimeout_def)

lemma wf_errorText [simp]: "timers_wf (w\<lparr>errorText := x\<rparr>) = timers_wf w"
  by (simp add: timers_wf_def)

lemma wf_errorVisible [simp]: "timers_wf (w\<lparr>errorVisible := x\<rparr>) = timers_wf w"
  by (simp add: timers_wf_def)

lemma wf_loading [simp]: "timers_wf (w\<lparr>loading := x\<rparr>) = timers_wf w"
  by (simp add: timers_wf_def)

lemma wf_requests [simp]: "timers_wf (w\<lparr>requests := x\<rparr>) = timers_wf w"
  by (simp add: timers_wf_def)

lemma wf_weatherData [simp]: "timers_wf (w\<lparr>weatherData := x\<rparr>) = timers_wf w"
  by (simp add: timers_wf_def)

lemma wf_console [simp]: "timers_wf (w\<lparr>console := x\<rparr>) = timers_wf w"
  by (simp add: timers_wf_def)

lemma wf_notifications [simp]: "timers_wf (w\<lparr>notifications := x\<rparr>) = timers_wf w"
  by (simp add: timers_wf_def)

lemma wf_shownAlerts [simp]: "timers_wf (w\<lparr>shownAlerts := x\<rparr>) = timers_wf w"
  by (simp add: timers_wf_def)

lemma wf_currentLocation [simp]: "timers_wf (w\<lparr>currentLocation := x\<rparr>) = timers_wf w"
  by (simp add: timers_wf_def)

lemma wf_weatherLocation [simp]: "timers_wf (w\<lparr>weatherLocation := x\<rparr>) = timers_wf w"
  by (simp add: timers_wf_def)

lemma wf_showError: "timers_wf w \<Longrightarrow> timers_wf (showError m w)"
  unfolding showError_def by (rule wf_setTimeout) simp_all

lemma wf_showLoading [simp]: "timers_wf (showLoading w) = timers_wf w"
  by (simp add: showLoading_def)

lemma wf_hideLoading [simp]: "timers_wf (hideLoading w) = timers_wf w"
  by (simp add: hideLoading_def)

lemma wf_notify_alert: "timers_wf (fst st) \<Longrightarrow> timers_wf (fst (notify_alert st a))"
  by (simp add: notify_alert_def Let_def wf_setTimeout)

lemma wf_foldl_notify: "timers_wf (fst st) \<Longrightarrow> timers_wf (fst (foldl notify_alert st as))"
  by (induction as arbitrary: st) (simp_all add: wf_notify_alert)

lemma wf_showAlertNotifications:
  "timers_wf w \<Longrightarrow> timers_wf (showAlertNotifications as w)"
  by (simp add: showAlertNotifications_def Let_def wf_foldl_notify)

lemma wf_processAlerts: "timers_wf w \<Longrightarrow> timers_wf (processAlerts w)"
  by (simp add: processAlerts_def wf_showAlertNotifications split: option.split)

lemma wf_toggleAlerts_on: "timers_wf w \<Longrightarrow> timers_wf (toggleAlerts True w)"
  using ok_add_alert [OF ok_clear_alert, of "timers w" "next_id w" "alertCheckInterval w"
      "refreshTimer w"]
  by (simp add: timers_wf_def toggleAlerts_on)

lemma wf_toggleAlerts_off: "timers_wf w \<Longrightarrow> timers_wf (toggleAlerts False w)"
  using ok_clear_alert [of "timers w" "next_id w" "alertCheckInterval w" "refreshTimer w"]
  by (cases "alertCheckInterval w") (simp_all add: timers_wf_def toggleAlerts_off)

lemma wf_toggleAlerts: "timers_wf w \<Longrightarrow> timers_wf (toggleAlerts enabled w)"
  by (cases enabled) (simp_all add: wf_toggleAlerts_on wf_toggleAlerts_off)

lemma wf_startAlertChecking: "timers_wf w \<Longrightarrow> timers_wf (startAlertChecking w)"
  using wf_toggleAlerts_on [of w] by (simp add: toggleAlerts_def)

lemma setupAutoRefresh_eq:
  "setupAutoRefresh w =
     w\<lparr>timers := (case refreshTimer w of
                    Some i \<Rightarrow> filter (\<lambda>t. tid t \<noteq> i) (timers w)
                  | None \<Rightarrow> timers w)
                 @ [\<lparr>tid = next_id w, kind = Refresh, due = now w + REFRESH_INTERVAL,
                     period = None\<rparr>],
       next_id := next_id w + 1,
       refreshTimer := Some (next_id w)\<rparr>"
  by (simp add: setupAutoRefresh_def clearTimer_def setTimeout_def Let_def split: option.split)

lemma wf_setupAutoRefresh: "timers_wf w \<Longrightarrow> timers_wf (setupAutoRefresh w)"
  using ok_add_refresh [OF ok_clear_refresh, of "timers w" "next_id w" "alertCheckInterval w"
      "refreshTimer w"]
  by (simp add: timers_wf_def setupAutoRefresh_eq)

lemma wf_fetchWeatherData: "timers_wf w \<Longrightarrow> timers_wf (fetchWeatherData svc foc fcw w)"
  by (simp add: fetchWeatherData_def Let_def wf_showError wf_processAlerts
      wf_startAlertChecking wf_setupAutoRefresh split: option.split sum.split)

lemma wf_alert_check_callback:
  "timers_wf w \<Longrightarrow> timers_wf (alert_check_callback svc foc w)"
  by (simp add: alert_check_callback_def Let_def wf_processAlerts
      split: option.split sum.split)

lemma find_tid:
  "find (\<lambda>t. tid t = i) ts = Some t \<Longrightarrow> t \<in> set ts \<and> tid t = i"
  by (induction ts) (auto split: if_splits)

lemma wf_fire: "timers_wf w \<Longrightarrow> timers_wf (fire svc foc fcw i w)"
proof (cases "find (\<lambda>t. tid t = i) (timers w)")
  case None
  assume "timers_wf w"
  with None show ?thesis by (simp add: fire_def)
next
  case (Some t)
  assume wf: "timers_wf w"
  let ?ts = "case period t of
               None \<Rightarrow> filter (\<lambda>u. tid u \<noteq> i) (timers w)
             | Some p \<Rightarrow> map (\<lambda>u. if tid u = i then u\<lparr>due := due u + p\<rparr> else u) (timers w)"
  let ?w1 = "w\<lparr>now := max (now w) (due t), timers := ?ts\<rparr>"
  have "timers_ok ?ts (next_id w) (alertCheckInterval w) (refreshTimer w)"
    using wf ok_remove ok_reschedule
    by (cases "period t") (simp_all add: timers_wf_def)
  then have "timers_wf ?w1"
    by (simp add: timers_wf_def)
  then show ?thesis
    using Some
    by (cases "kind t")
      (simp_all add: fire_def Let_def refresh_callback_def wf_fetchWeatherData
        wf_alert_check_callback)
qed

lemma wf_WeatherApp_searchLocation:
  "timers_wf w \<Longrightarrow> timers_wf (WeatherApp_searchLocation svc fgeo foc fcw q w)"
  by (simp add: WeatherApp_searchLocation_def Let_def WeatherApp_saveLocation_def
      wf_showError wf_fetchWeatherData split: sum.split list.split option.split)

subsection \<open>The first poll after the alerts are switched on\<close>

lemma requests_setTimeout [simp]: "requests (snd (setTimeout k d w)) = requests w"
  by (simp add: setTimeout_def)

lemma now_setTimeout [simp]: "now (snd (setTimeout k d w)) = now w"
  by (simp add: setTimeout_def)

lemma requests_notify_alert [simp]:
  "requests (fst (notify_alert st a)) = requests (fst st)"
  by (simp add: notify_alert_def Let_def)

lemma now_notify_alert [simp]: "now (fst (notify_alert st a)) = now (fst st)"
  by (simp add: notify_alert_def Let_def)

lemma requests_foldl_notify:
  "requests (fst (foldl notify_alert st as)) = requests (fst st)"
  by (induction as arbitrary: st) simp_all

lemma now_foldl_notify: "now (fst (foldl notify_alert st as)) = now (fst st)"
  by (induction as arbitrary: st) simp_all

lemma requests_processAlerts [simp]: "requests (processAlerts w) = requests w"
  by (simp add: processAlerts_def showAlertNotifications_def Let_def requests_foldl_notify
      split: option.split)

lemma now_processAlerts [simp]: "now (processAlerts w) = now w"
  by (simp add: processAlerts_def showAlertNotifications_def Let_def now_foldl_notify
      split: option.split)

lemma alert_check_callback_polls:
  assumes "currentLocation w = Some loc" "alertsToggle_checked w"
  shows "requests (alert_check_callback svc foc w) = requests w @ [oneCall_request svc loc True]"
    and "now (alert_check_callback svc foc w) = now w"
  using assms
  by (simp_all add: alert_check_callback_def Let_def split: sum.split option.split)

lemma find_last:
  assumes "\<forall>y \<in> set xs. \<not> P y" "P x"
  shows "find P (xs @ [x]) = Some x"
  using assms by (induction xs) simp_all

lemma fire_new_alert_timer:
  assumes "timers_wf w"
  shows "fire svc foc fcw (next_id w) (toggleAlerts True w)
     = alert_check_callback svc foc
         ((toggleAlerts True w)\<lparr>now := now w + CHECK_INTERVAL,
            timers := map (\<lambda>u. if tid u = next_id w then u\<lparr>due := due u + CHECK_INTERVAL\<rparr>
                                else u) (timers (toggleAlerts True w))\<rparr>)"
proof -
  let ?new = "\<lparr>tid = next_id w, kind = AlertCheck, due = now w + CHECK_INTERVAL,
       period = Some CHECK_INTERVAL\<rparr>"
  let ?old = "case alertCheckInterval w of
                Some i \<Rightarrow> filter (\<lambda>t. tid t \<noteq> i) (timers w) | None \<Rightarrow> timers w"
  have "\<forall>t \<in> set ?old. tid t \<noteq> next_id w"
    using assms by (cases "alertCheckInterval w") (auto simp: timers_wf_def timers_ok_def)
  then have "find (\<lambda>t. tid t = next_id w) (?old @ [?new]) = Some ?new"
    by (intro find_last) simp_all
  then have "find (\<lambda>t. tid t = next_id w) (timers (toggleAlerts True w)) = Some ?new"
    by (simp add: toggleAlerts_on)
  moreover have "now (toggleAlerts True w) = now w"
    by (simp add: toggleAlerts_on)
  ultimately show ?thesis
    by (simp add: fire_def Let_def)
qed

subsection \<open>No alert poll earlier than one interval after re-enabling\<close>

lemma polls_from_append [simp]:
  "polls_from T (ts @ us) = (polls_from T ts \<and> polls_from T us)"
  by (auto simp: polls_from_def)

lemma polls_from_filter: "polls_from T ts \<Longrightarrow> polls_from T (filter P ts)"
  by (simp add: polls_from_def)

lemma polls_from_single [simp]:
  "polls_from T [\<lparr>tid = i, kind = k, due = d, period = p\<rparr>] = (k = AlertCheck \<longrightarrow> T \<le> d)"
  by (simp add: polls_from_def)

lemma polls_from_reschedule:
  assumes "polls_from T ts"
  shows "polls_from T (map (\<lambda>u. if tid u = i then u\<lparr>due := due u + p\<rparr> else u) ts)"
proof -
  define f :: "timer \<Rightarrow> timer" where "f = (\<lambda>u. if tid u = i then u\<lparr>due := due u + p\<rparr> else u)"
  have "kind (f u) = kind u" "due u \<le> due (f u)" for u
    by (simp_all add: f_def)
  then have "polls_from T (map f ts)"
    using assms unfolding polls_from_def by (auto intro: order_trans)
  then show ?thesis by (simp only: f_def)
qed

lemma pnb_setTimeout:
  "polls_not_before t0 w \<Longrightarrow> k \<noteq> AlertCheck \<Longrightarrow> polls_not_before t0 (snd (setTimeout k d w))"
  by (simp add: polls_not_before_def setTimeout_def)

lemma pnb_errorText [simp]: "polls_not_before t0 (w\<lparr>errorText := x\<rparr>) = polls_not_before t0 w"
  by (simp add: polls_not_before_def)

lemma pnb_errorVisible [simp]:
  "polls_not_before t0 (w\<lparr>errorVisible := x\<rparr>) = polls_not_before t0 w"
  by (simp add: polls_not_before_def)

lemma pnb_loading [simp]: "polls_not_before t0 (w\<lparr>loading := x\<rparr>) = polls_not_before t0 w"
  by (simp add: polls_not_before_def)

lemma pnb_requests [simp]: "polls_not_before t0 (w\<lparr>requests := x\<rparr>) = polls_not_before t0 w"
  by (simp add: polls_not_before_def)

lemma pnb_weatherData [simp]:
  "polls_not_before t0 (w\<lparr>weatherData := x\<rparr>) = polls_not_before t0 w"
  by (simp add: polls_not_before_def)

lemma pnb_console [simp]: "polls_not_before t0 (w\<lparr>console := x\<rparr>) = polls_not_before t0 w"
  by (simp add: polls_not_before_def)

lemma pnb_notifications [simp]:
  "polls_not_before t0 (w\<lparr>notifications := x\<rparr>) = polls_not_before t0 w"
  by (simp add: polls_not_before_def)

lemma pnb_shownAlerts [simp]:
  "polls_not_before t0 (w\<lparr>shownAlerts := x\<rparr>) = polls_not_before t0 w"
  by (simp add: polls_not_before_def)

lemma pnb_showError: "polls_not_before t0 w \<Longrightarrow> polls_not_before t0 (showError m w)"
  unfolding showError_def by (rule pnb_setTimeout) simp_all

lemma pnb_showLoading [simp]: "polls_not_before t0 (showLoading w) = polls_not_before t0 w"
  by (simp add: showLoading_def)

lemma pnb_hideLoading [simp]: "polls_not_before t0 (hideLoading w) = polls_not_before t0 w"
  by (simp add: hideLoading_def)

lemma pnb_notify_alert:
  "polls_not_before t0 (fst st) \<Longrightarrow> polls_not_before t0 (fst (notify_alert st a))"
  by (simp add: notify_alert_def Let_def pnb_setTimeout)

lemma pnb_foldl_notify:
  "polls_not_before t0 (fst st) \<Longrightarrow> polls_not_before t0 (fst (foldl notify_alert st as))"
  by (induction as arbitrary: st) (simp_all add: pnb_notify_alert)

lemma pnb_showAlertNotifications:
  "polls_not_before t0 w \<Longrightarrow> polls_not_before t0 (showAlertNotifications as w)"
  by (simp add: showAlertNotifications_def Let_def pnb_foldl_notify)

lemma pnb_processAlerts: "polls_not_before t0 w \<Longrightarrow> polls_not_before t0 (processAlerts w)"
  by (simp add: processAlerts_def pnb_showAlertNotifications split: option.split)

lemma pnb_toggleAlerts_on: "polls_not_before t0 w \<Longrightarrow> polls_not_before t0 (toggleAlerts True w)"
  by (cases "alertCheckInterval w")
    (simp_all add: polls_not_before_def toggleAlerts_on polls_from_filter)

lemma pnb_toggleAlerts_off: "polls_not_before t0 w \<Longrightarrow> polls_not_before t0 (toggleAlerts False w)"
  by (cases "alertCheckInterval w")
    (simp_all add: polls_not_before_def toggleAlerts_off polls_from_filter)

lemma pnb_toggleAlerts: "polls_not_before t0 w \<Longrightarrow> polls_not_before t0 (toggleAlerts enabled w)"
  by (cases enabled) (simp_all add: pnb_toggleAlerts_on pnb_toggleAlerts_off)

lemma pnb_startAlertChecking:
  "polls_not_before t0 w \<Longrightarrow> polls_not_before t0 (startAlertChecking w)"
  using pnb_toggleAlerts_on [of t0 w] by (simp add: toggleAlerts_def)

lemma pnb_setupAutoRefresh:
  "polls_not_before t0 w \<Longrightarrow> polls_not_before t0 (setupAutoRefresh w)"
  by (cases "refreshTimer w")
    (simp_all add: polls_not_before_def setupAutoRefresh_eq polls_from_filter)

lemma pnb_fetchWeatherData:
  "polls_not_before t0 w \<Longrightarrow> polls_not_before t0 (fetchWeatherData svc foc fcw w)"
  by (simp add: fetchWeatherData_def Let_def pnb_showError pnb_processAlerts
      pnb_startAlertChecking pnb_setupAutoRefresh split: option.split sum.split)

lemma pnb_alert_check_callback:
  "polls_not_before t0 w \<Longrightarrow> polls_not_before t0 (alert_check_callback svc foc w)"
  by (simp add: alert_check_callback_def Let_def pnb_processAlerts
      split: option.split sum.split)

lemma pnb_fire: "polls_not_before t0 w \<Longrightarrow> polls_not_before t0 (fire svc foc fcw i w)"
proof (cases "find (\<lambda>t. tid t = i) (timers w)")
  case None
  assume "polls_not_before t0 w"
  with None show ?thesis by (simp add: fire_def)
next
  case (Some t)
  assume p: "polls_not_before t0 w"
  let ?ts = "case period t of
               None \<Rightarrow> filter (\<lambda>u. tid u \<noteq> i) (timers w)
             | Some p \<Rightarrow> map (\<lambda>u. if tid u = i then u\<lparr>due := due u + p\<rparr> else u) (timers w)"
  let ?w1 = "w\<lparr>now := max (now w) (due t), timers := ?ts\<rparr>"
  have "polls_from (t0 + CHECK_INTERVAL) ?ts"
    using p polls_from_filter polls_from_reschedule
    by (cases "period t") (simp_all add: polls_not_before_def)
  moreover have "t0 \<le> max (now w) (due t)"
    using p by (simp add: polls_not_before_def max.coboundedI1)
  ultimately have "polls_not_before t0 ?w1"
    by (simp add: polls_not_before_def)
  then show ?thesis
    using Some
    by (cases "kind t")
      (simp_all add: fire_def Let_def refresh_callback_def pnb_fetchWeatherData
        pnb_alert_check_callback)
qed

lemma pnb_step: "polls_not_before t0 w \<Longrightarrow> polls_not_before t0 (step svc w e)"
proof (cases e)
  case (Advance n)
  assume "polls_not_before t0 w"
  then show ?thesis
    by (simp add: Advance polls_not_before_def)
qed (simp_all add: pnb_fire pnb_toggleAlerts pnb_fetchWeatherData)

lemma poll_time_late:
  assumes "polls_not_before t0 w" "time \<in> set (poll_time w e)"
  shows "t0 + CHECK_INTERVAL \<le> time"
proof (cases e)
  case (Fire i foc fcw)
  obtain t where t: "find (\<lambda>t. tid t = i) (timers w) = Some t"
    "kind t = AlertCheck" "time = max (now w) (due t)"
  proof (cases "find (\<lambda>t. tid t = i) (timers w)")
    case None
    with assms(2) Fire show ?thesis by simp
  next
    case (Some u)
    with assms(2) Fire have "kind u = AlertCheck" "time = max (now w) (due u)"
      by (simp_all split: if_splits)
    with Some that show ?thesis by blast
  qed
  from find_tid [OF t(1)] have "t \<in> set (timers w)"
    by simp
  with assms(1) t(2) have "t0 + CHECK_INTERVAL \<le> due t"
    by (simp add: polls_not_before_def polls_from_def)
  with t(3) show ?thesis by simp
qed (use assms(2) in simp_all)

lemma alert_polls_late:
  assumes "polls_not_before t0 w" "time \<in> set (alert_polls svc w es)"
  shows "t0 + CHECK_INTERVAL \<le> time"
  using assms
proof (induction es arbitrary: w)
  case Nil
  then show ?case by simp
next
  case (Cons e es)
  from Cons.prems(2) consider "time \<in> set (poll_time w e)"
    | "time \<in> set (alert_polls svc (step svc w e) es)"
    by auto
  then show ?case
  proof cases
    case 1
    with Cons.prems(1) show ?thesis by (rule poll_time_late)
  next
    case 2
    with Cons.IH [OF pnb_step [OF Cons.prems(1)]] show ?thesis by simp
  qed
qed

lemma pnb_reenabled:
  assumes "timers_wf w"
  shows "polls_not_before (now w) (toggleAlerts True w)"
proof -
  have "polls_from (now w + CHECK_INTERVAL) (filter (\<lambda>t. kind t = AlertCheck)
      (timers (toggleAlerts True w)))"
    by (simp add: wf_on_alert [OF assms])
  then have "polls_from (now w + CHECK_INTERVAL) (timers (toggleAlerts True w))"
    by (simp add: polls_from_def)
  then show ?thesis
    by (simp add: polls_not_before_def toggleAlerts_on)
qed

lemma paused_world_eq:
  "paused_world =
     \<lparr>currentLocation = Some new_york,
      weatherData = Some \<lparr>current = sample_current,
                           forecast = [\<lparr>d_dt = 86400, d_temp_min = 10, d_temp_max = 20\<rparr>],
                           hourly = [\<lparr>h_dt = 3600, h_temp = 15\<rparr>],
                           alerts = [tornado_alert]\<rparr>,
      alertCheckInterval = None, refreshTimer = Some 2, alertsToggle_checked = True,
      loading = False, errorText = [], errorVisible = False, permission = granted,
      now = 905000, next_id = 3,
      timers = [\<lparr>tid = 2, kind = Refresh, due = 1800000, period = None\<rparr>],
      notifications = [alert_notification tornado_alert], console = [],
      requests = [oneCall_request new_WeatherService new_york True,
                  currentWeather_request new_WeatherService new_york],
      shownAlerts = Some [''Tornado Warning-1000-2000''], weatherLocation = None\<rparr>"
  by (simp add: paused_world_def armed_world_eq toggleAlerts_off)

lemma reenabled_world_eq:
  "toggleAlerts True paused_world =
     \<lparr>currentLocation = Some new_york,
      weatherData = Some \<lparr>current = sample_current,
                           forecast = [\<lparr>d_dt = 86400, d_temp_min = 10, d_temp_max = 20\<rparr>],
                           hourly = [\<lparr>h_dt = 3600, h_temp = 15\<rparr>],
                           alerts = [tornado_alert]\<rparr>,
      alertCheckInterval = Some 3, refreshTimer = Some 2, alertsToggle_checked = True,
      loading = False, errorText = [], errorVisible = False, permission = granted,
      now = 905000, next_id = 4,
      timers = [\<lparr>tid = 2, kind = Refresh, due = 1800000, period = None\<rparr>,
                \<lparr>tid = 3, kind = AlertCheck, due = 1805000, period = Some 900000\<rparr>],
      notifications = [alert_notification tornado_alert], console = [],
      requests = [oneCall_request new_WeatherService new_york True,
                  currentWeather_request new_WeatherService new_york],
      shownAlerts = Some [''Tornado Warning-1000-2000''], weatherLocation = None\<rparr>"
  by (simp add: paused_world_eq toggleAlerts_on CHECK_INTERVAL_def)

lemma refresh_replaces_alert_timer:
  "timers (fire new_WeatherService serving_onecall serving_current 2
             (toggleAlerts True paused_world))
     = [\<lparr>tid = 4, kind = AlertCheck, due = 2700000, period = Some 900000\<rparr>,
        \<lparr>tid = 5, kind = Refresh, due = 3600000, period = None\<rparr>]"
  "now (fire new_WeatherService serving_onecall serving_current 2
          (toggleAlerts True paused_world)) = 1800000"
  by (simp_all add: reenabled_world_eq fire_def refresh_callback_def scheduler_defs
      serving_onecall_def serving_current_def sample_onecall_def alertId_tornado)

lemma reenabled_polls:
  "alert_polls new_WeatherService (toggleAlerts True paused_world)
     [Fire 2 serving_onecall serving_current, Fire 4 serving_onecall serving_current]
     = [2700000]"
proof -
  have "poll_time (toggleAlerts True paused_world) (Fire 2 serving_onecall serving_current) = []"
    by (simp add: reenabled_world_eq)
  moreover have "poll_time (fire new_WeatherService serving_onecall serving_current 2
      (toggleAlerts True paused_world)) (Fire 4 serving_onecall serving_current) = [2700000]"
    by (simp add: refresh_replaces_alert_timer)
  ultimately show ?thesis by simp
qed

text \<open>
  Claim C9, as amended. In a state the scheduler can reach, disabling the alerts cancels
  the alert poll timer and no other: no alert poll stays pending, every other pending
  timer, the full-refresh timer among them, is untouched, and so is the refresh handle.
  Re-enabling arms a new poll with \<open>setInterval\<close> and sends no request at that moment: the
  only pending alert poll is first due one full check interval later, fired from there
  (with a location set and the toggle checked) it polls at that time, and whatever
  happens after re-enabling (timers firing in any order, fetches, further toggles, time
  passing) the callback of an alert poll timer never runs earlier than one full check
  interval after the re-enabling.
\<close>

theorem toggleAlerts_timers:
  "timers_wf w \<longrightarrow>
     filter (\<lambda>t. kind t = AlertCheck) (timers (toggleAlerts False w)) = []
     \<and> filter (\<lambda>t. kind t \<noteq> AlertCheck) (timers (toggleAlerts False w))
         = filter (\<lambda>t. kind t \<noteq> AlertCheck) (timers w)
     \<and> refreshTimer (toggleAlerts False w) = refreshTimer w
     \<and> alertCheckInterval (toggleAlerts False w) = None
     \<and> filter (\<lambda>t. kind t = AlertCheck) (timers (toggleAlerts True w))
         = [\<lparr>tid = next_id w, kind = AlertCheck, due = now w + CHECK_INTERVAL,
             period = Some CHECK_INTERVAL\<rparr>]
     \<and> filter (\<lambda>t. kind t \<noteq> AlertCheck) (timers (toggleAlerts True w))
         = filter (\<lambda>t. kind t \<noteq> AlertCheck) (timers w)
     \<and> alertCheckInterval (toggleAlerts True w) = Some (next_id w)
     \<and> requests (toggleAlerts True w) = requests w
     \<and> now (toggleAlerts True w) = now w
     \<and> (\<forall>loc. currentLocation w = Some loc \<and> alertsToggle_checked w \<longrightarrow>
           requests (fire svc foc fcw (next_id w) (toggleAlerts True w))
             = requests w @ [oneCall_request svc loc True]
           \<and> now (fire svc foc fcw (next_id w) (toggleAlerts True w)) = now w + CHECK_INTERVAL)
     \<and> (\<forall>es. \<forall>time \<in> set (alert_polls svc (toggleAlerts True w) es).
           now w + CHECK_INTERVAL \<le> time)"
proof (intro impI conjI allI ballI)
  assume wf: "timers_wf w"
  show "filter (\<lambda>t. kind t = AlertCheck) (timers (toggleAlerts False w)) = []"
    by (rule wf_off_alert [OF wf])
  show "filter (\<lambda>t. kind t \<noteq> AlertCheck) (timers (toggleAlerts False w))
         = filter (\<lambda>t. kind t \<noteq> AlertCheck) (timers w)"
    by (rule wf_off_others [OF wf])
  show "refreshTimer (toggleAlerts False w) = refreshTimer w"
    by (simp add: toggleAlerts_off split: option.split)
  show "alertCheckInterval (toggleAlerts False w) = None"
    by (simp add: toggleAlerts_off split: option.split)
  show "filter (\<lambda>t. kind t = AlertCheck) (timers (toggleAlerts True w))
         = [\<lparr>tid = next_id w, kind = AlertCheck, due = now w + CHECK_INTERVAL,
             period = Some CHECK_INTERVAL\<rparr>]"
    by (rule wf_on_alert [OF wf])
  show "filter (\<lambda>t. kind t \<noteq> AlertCheck) (timers (toggleAlerts True w))
         = filter (\<lambda>t. kind t \<noteq> AlertCheck) (timers w)"
    by (rule wf_on_others [OF wf])
  show "alertCheckInterval (toggleAlerts True w) = Some (next_id w)"
    by (simp add: toggleAlerts_on)
  show "requests (toggleAlerts True w) = requests w"
    by (simp add: toggleAlerts_on)
  show "now (toggleAlerts True w) = now w"
    by (simp add: toggleAlerts_on)
next
  fix loc
  assume wf: "timers_wf w" and a: "currentLocation w = Some loc \<and> alertsToggle_checked w"
  let ?w1 = "(toggleAlerts True w)\<lparr>now := now w + CHECK_INTERVAL,
            timers := map (\<lambda>u. if tid u = next_id w then u\<lparr>due := due u + CHECK_INTERVAL\<rparr>
                                else u) (timers (toggleAlerts True w))\<rparr>"
  have c: "currentLocation ?w1 = Some loc" "alertsToggle_checked ?w1"
    using a by (simp_all add: toggleAlerts_on)
  have r: "requests ?w1 = requests w" "now ?w1 = now w + CHECK_INTERVAL"
    by (simp_all add: toggleAlerts_on)
  show "requests (fire svc foc fcw (next_id w) (toggleAlerts True w))
             = requests w @ [oneCall_request svc loc True]"
    by (simp only: fire_new_alert_timer [OF wf] alert_check_callback_polls [OF c] r)
  show "now (fire svc foc fcw (next_id w) (toggleAlerts True w)) = now w + CHECK_INTERVAL"
    by (simp only: fire_new_alert_timer [OF wf] alert_check_callback_polls [OF c] r)
next
  fix es time
  assume wf: "timers_wf w" and t: "time \<in> set (alert_polls svc (toggleAlerts True w) es)"
  show "now w + CHECK_INTERVAL \<le> time"
    by (rule alert_polls_late [OF pnb_reenabled [OF wf] t])
qed

theorem toggleAlerts_timers_witness:
  "timers_wf armed_world
   \<and> filter (\<lambda>t. kind t = AlertCheck) (timers (toggleAlerts False armed_world)) = []
   \<and> filter (\<lambda>t. kind t \<noteq> AlertCheck) (timers (toggleAlerts False armed_world))
       = [\<lparr>tid = 2, kind = Refresh, due = 1800000, period = None\<rparr>]
   \<and> filter (\<lambda>t. kind t = AlertCheck) (timers (toggleAlerts True armed_world))
       = [\<lparr>tid = 3, kind = AlertCheck, due = CHECK_INTERVAL, period = Some CHECK_INTERVAL\<rparr>]
   \<and> now (fire new_WeatherService serving_onecall serving_current 3
            (toggleAlerts True armed_world)) = CHECK_INTERVAL
   \<and> timers_wf paused_world
   \<and> alert_polls new_WeatherService (toggleAlerts True paused_world)
        [Fire 2 serving_onecall serving_current, Fire 4 serving_onecall serving_current]
       = [2700000]
   \<and> now paused_world + CHECK_INTERVAL = 1805000
   \<and> now paused_world + CHECK_INTERVAL \<le> 2700000"
proof -
  have wf: "timers_wf armed_world"
    by (simp add: timers_wf_def timers_ok_def armed_world_eq)
  have st: "currentLocation armed_world = Some new_york \<and> alertsToggle_checked armed_world"
    "next_id armed_world = 3" "now armed_world = 0"
    "filter (\<lambda>t. kind t \<noteq> AlertCheck) (timers armed_world)
       = [\<lparr>tid = 2, kind = Refresh, due = 1800000, period = None\<rparr>]"
    by (simp_all add: armed_world_eq)
  from toggleAlerts_timers [of armed_world new_WeatherService serving_onecall serving_current]
    wf st
  have 1: "filter (\<lambda>t. kind t = AlertCheck) (timers (toggleAlerts False armed_world)) = []
   \<and> filter (\<lambda>t. kind t \<noteq> AlertCheck) (timers (toggleAlerts False armed_world))
       = [\<lparr>tid = 2, kind = Refresh, due = 1800000, period = None\<rparr>]
   \<and> filter (\<lambda>t. kind t = AlertCheck) (timers (toggleAlerts True armed_world))
       = [\<lparr>tid = 3, kind = AlertCheck, due = CHECK_INTERVAL, period = Some CHECK_INTERVAL\<rparr>]
   \<and> now (fire new_WeatherService serving_onecall serving_current 3
            (toggleAlerts True armed_world)) = CHECK_INTERVAL"
    by simp
  have wf': "timers_wf paused_world"
    by (simp add: timers_wf_def timers_ok_def paused_world_eq)
  have "2700000 \<in> set (alert_polls new_WeatherService (toggleAlerts True paused_world)
        [Fire 2 serving_onecall serving_current, Fire 4 serving_onecall serving_current])"
    by (simp only: reenabled_polls) simp
  with toggleAlerts_timers [of paused_world new_WeatherService serving_onecall
      serving_current] wf'
  have 2: "now paused_world + CHECK_INTERVAL \<le> 2700000"
    by blast
  have 3: "now paused_world + CHECK_INTERVAL = 1805000"
    by (simp add: paused_world_eq CHECK_INTERVAL_def)
  from wf 1 wf' reenabled_polls 3 2 show ?thesis
    by (intro conjI) simp_all
qed

theorem toggleAlerts_immediate_counterexample:
  "requests (toggleAlerts True (toggleAlerts False armed_world)) = requests armed_world
   \<and> now (toggleAlerts True (toggleAlerts False armed_world)) = 0
   \<and> timers (toggleAlerts True (toggleAlerts False armed_world))
       = [\<lparr>tid = 2, kind = Refresh, due = 1800000, period = None\<rparr>,
          \<lparr>tid = 3, kind = AlertCheck, due = 900000, period = Some 900000\<rparr>]"
  by (simp add: armed_world_eq toggleAlerts_def startAlertChecking_def clearTimer_def
      setInterval_def Let_def CHECK_INTERVAL_def)

section \<open>Notification deduplication: the proofs\<close>


lemma notifications_setTimeout [simp]:
  "notifications (snd (setTimeout k d w)) = notifications w"
  by (simp add: setTimeout_def)

lemma shownAlerts_setTimeout [simp]: "shownAlerts (snd (setTimeout k d w)) = shownAlerts w"
  by (simp add: setTimeout_def)









lemma tornado_identity: "identity tornado_alert = (''Tornado Warning'', 1000, 2000)"
  by (simp add: identity_def tornado_alert_def)






section \<open>Saved locations and the session: the proofs\<close>

lemma limit_message_eq:
  "limit_message = ''You can only save up to 5 locations. Please remove one first.''"
  unfolding limit_message_def SAVED_LOCATIONS_LIMIT_def by code_simp

lemma find_in_set: "find P xs = Some x \<Longrightarrow> x \<in> set xs \<and> P x"
  by (induction xs) (auto split: if_splits)

lemma get_users_dialogs [simp]: "get_users (s\<lparr>dialogs := d\<rparr>) = get_users s"
  by (simp add: get_users_def)

lemma get_users_stored [simp]: "get_users (s\<lparr>stored_users := Some us\<rparr>) = us"
  by (simp add: get_users_def)

lemma get_users_savedLocations [simp]: "get_users (s\<lparr>savedLocations := l\<rparr>) = get_users s"
  by (simp add: get_users_def)

lemma get_users_currentUser [simp]: "get_users (s\<lparr>currentUser := c\<rparr>) = get_users s"
  by (simp add: get_users_def)

lemma get_users_stored_currentUser [simp]:
  "get_users (s\<lparr>stored_currentUser := c\<rparr>) = get_users s"
  by (simp add: get_users_def)

lemma within_limit_alert [simp]: "within_limit (js_alert m s) = within_limit s"
  by (simp add: within_limit_def js_alert_def)

lemma saveLocation_at_limit:
  assumes "currentUser s \<noteq> None" "SAVED_LOCATIONS_LIMIT \<le> length (savedLocations s)"
  shows "UserService_saveLocation n (Some loc) s =
     js_alert (if find (\<lambda>l. lat l = lat loc \<and> lon l = lon loc) (savedLocations s) = None
               then limit_message else ''This location is already saved'') s"
  using assms by (auto simp: UserService_saveLocation_def split: option.split)

lemma within_limit_update:
  assumes "within_limit s"
  shows "within_limit (updateUserSavedLocations s)"
proof (cases "currentUser s")
  case None
  with assms show ?thesis by (simp add: updateUserSavedLocations_def)
next
  case (Some cu)
  show ?thesis
  proof (cases "findIndex (\<lambda>u. Some (user_id u) = map_of cu ''id'') (get_users s)")
    case None
    with Some assms show ?thesis by (simp add: updateUserSavedLocations_def)
  next
    case (Some i)
    let ?u = "(get_users s ! i)\<lparr>user_savedLocations := savedLocations s\<rparr>"
    have "set ((get_users s)[i := ?u]) \<subseteq> insert ?u (set (get_users s))"
      by (rule set_update_subset_insert)
    moreover have "length (user_savedLocations ?u) \<le> SAVED_LOCATIONS_LIMIT"
      using assms by (simp add: within_limit_def)
    ultimately have "\<forall>u \<in> set ((get_users s)[i := ?u]).
        length (user_savedLocations u) \<le> SAVED_LOCATIONS_LIMIT"
      using assms unfolding within_limit_def by blast
    with Some \<open>currentUser s = Some cu\<close> assms show ?thesis
      by (simp add: updateUserSavedLocations_def within_limit_def Let_def)
  qed
qed

lemma within_limit_login: "within_limit s \<Longrightarrow> within_limit (login mail pw s)"
  by (auto simp: login_def within_limit_def js_alert_def Let_def split: option.split
      dest: find_in_set)

lemma within_limit_register: "within_limit s \<Longrightarrow> within_limit (register n nm mail pw s)"
proof -
  assume wl: "within_limit s"
  let ?new = "\<lparr>user_id = nat_to_string n, user_name = nm, email = mail,
                password = pw, user_savedLocations = []\<rparr>"
  have "within_limit (s\<lparr>stored_users := Some (get_users s @ [?new])\<rparr>)"
    using wl by (simp add: within_limit_def)
  then have "within_limit (login mail pw (s\<lparr>stored_users := Some (get_users s @ [?new])\<rparr>))"
    by (rule within_limit_login)
  with wl show ?thesis
    by (simp add: register_def Let_def split: option.split)
qed

lemma within_limit_logout: "within_limit s \<Longrightarrow> within_limit (logout s)"
  by (simp add: logout_def within_limit_def)

lemma within_limit_saveLocation:
  "within_limit s \<Longrightarrow> within_limit (UserService_saveLocation n location s)"
proof -
  assume wl: "within_limit s"
  have "within_limit (updateUserSavedLocations (s\<lparr>savedLocations := savedLocations s @ [x]\<rparr>))"
    if "\<not> SAVED_LOCATIONS_LIMIT \<le> length (savedLocations s)" for x
    using wl that by (intro within_limit_update) (simp add: within_limit_def)
  with wl show ?thesis
    by (simp add: UserService_saveLocation_def split: option.split)
qed

lemma within_limit_removeLocation:
  "within_limit s \<Longrightarrow> within_limit (removeLocation i s)"
proof -
  assume wl: "within_limit s"
  have "length (filter (\<lambda>l. sl_id l \<noteq> i) (savedLocations s)) \<le> SAVED_LOCATIONS_LIMIT"
    using wl length_filter_le [of _ "savedLocations s"]
    unfolding within_limit_def by (meson le_trans)
  then have "within_limit (updateUserSavedLocations
      (s\<lparr>savedLocations := filter (\<lambda>l. sl_id l \<noteq> i) (savedLocations s)\<rparr>))"
    using wl by (intro within_limit_update) (simp add: within_limit_def)
  with wl show ?thesis
    by (simp add: removeLocation_def split: option.split)
qed

lemma within_limit_loadUserData: "within_limit s \<Longrightarrow> within_limit (loadUserData s)"
  by (auto simp: loadUserData_def within_limit_def Let_def split: option.split
      dest: find_in_set)

lemma within_limit_perform: "within_limit s \<Longrightarrow> within_limit (perform s a)"
  by (cases a)
    (simp_all add: within_limit_register within_limit_login within_limit_logout
      within_limit_saveLocation within_limit_removeLocation within_limit_loadUserData)

lemma within_limit_run: "within_limit s \<Longrightarrow> within_limit (foldl perform s actions)"
  by (induction actions arbitrary: s) (simp_all add: within_limit_perform)

lemma within_limit_new: "within_limit new_UserService"
  by (simp add: within_limit_def new_UserService_def get_users_def)

text \<open>
  Claim C5. For a logged-in user whose saved locations have reached the configured
  maximum of 5, \<open>saveLocation\<close> on any location is rejected with a message shown to the
  user (the limit message; the duplicate message when the location is already saved), and
  neither the list in memory nor the stored users change. No action of a user makes the
  list in memory, or the list stored for any user, longer than the limit, so from the
  empty storage on the limit is never exceeded.
\<close>

theorem saveLocation_limit:
  "(currentUser s \<noteq> None \<and> SAVED_LOCATIONS_LIMIT \<le> length (savedLocations s) \<longrightarrow>
      savedLocations (UserService_saveLocation n (Some loc) s) = savedLocations s
      \<and> stored_users (UserService_saveLocation n (Some loc) s) = stored_users s
      \<and> currentUser (UserService_saveLocation n (Some loc) s) = currentUser s
      \<and> (\<exists>msg. dialogs (UserService_saveLocation n (Some loc) s) = dialogs s @ [msg])
      \<and> (find (\<lambda>l. lat l = lat loc \<and> lon l = lon loc) (savedLocations s) = None \<longrightarrow>
            dialogs (UserService_saveLocation n (Some loc) s) = dialogs s @ [limit_message]))
   \<and> limit_message = ''You can only save up to 5 locations. Please remove one first.''
   \<and> SAVED_LOCATIONS_LIMIT = 5
   \<and> (within_limit s \<longrightarrow> within_limit (perform s a))
   \<and> within_limit (foldl perform new_UserService actions)"
proof (intro conjI impI)
  assume a: "currentUser s \<noteq> None \<and> SAVED_LOCATIONS_LIMIT \<le> length (savedLocations s)"
  note eq = saveLocation_at_limit [OF conjunct1 [OF a] conjunct2 [OF a], of n loc]
  show "savedLocations (UserService_saveLocation n (Some loc) s) = savedLocations s"
    "stored_users (UserService_saveLocation n (Some loc) s) = stored_users s"
    "currentUser (UserService_saveLocation n (Some loc) s) = currentUser s"
    "\<exists>msg. dialogs (UserService_saveLocation n (Some loc) s) = dialogs s @ [msg]"
    by (simp_all add: eq js_alert_def)
  assume "find (\<lambda>l. lat l = lat loc \<and> lon l = lon loc) (savedLocations s) = None"
  then show "dialogs (UserService_saveLocation n (Some loc) s) = dialogs s @ [limit_message]"
    by (simp add: eq js_alert_def)
next
  show "limit_message = ''You can only save up to 5 locations. Please remove one first.''"
    by (rule limit_message_eq)
  show "SAVED_LOCATIONS_LIMIT = 5"
    by (simp add: SAVED_LOCATIONS_LIMIT_def)
  show "within_limit (foldl perform new_UserService actions)"
    by (rule within_limit_run [OF within_limit_new])
next
  assume "within_limit s"
  then show "within_limit (perform s a)"
    by (rule within_limit_perform)
qed

lemma full_service_state:
  "currentUser full_service
     = Some [(''id'', nat_to_string 1), (''name'', ''Ada''), (''email'', ''ada@example.org'')]"
  "map (\<lambda>l. (lat l, sl_id l)) (savedLocations full_service)
     = [(1, nat_to_string 2), (2, nat_to_string 3), (3, nat_to_string 4),
        (4, nat_to_string 5), (5, nat_to_string 6)]"
  "dialogs full_service = []"
  by (simp_all add: full_service_def new_UserService_def register_def login_def Let_def
      get_users_def UserService_saveLocation_def updateUserSavedLocations_def city_def
      SAVED_LOCATIONS_LIMIT_def)

theorem saveLocation_limit_witness:
  "currentUser full_service \<noteq> None
   \<and> length (savedLocations full_service) = 5
   \<and> savedLocations (UserService_saveLocation 7 (Some (city 6)) full_service)
       = savedLocations full_service
   \<and> stored_users (UserService_saveLocation 7 (Some (city 6)) full_service)
       = stored_users full_service
   \<and> dialogs (UserService_saveLocation 7 (Some (city 6)) full_service)
       = [''You can only save up to 5 locations. Please remove one first.'']
   \<and> within_limit (perform full_service (SaveLocation 7 (Some (city 6))))"
proof -
  note inst = saveLocation_limit [of full_service 7 "city 6" "SaveLocation 7 (Some (city 6))" "[]"]
  have u: "currentUser full_service \<noteq> None"
    by (simp add: full_service_state)
  have "length (map (\<lambda>l. (lat l, sl_id l)) (savedLocations full_service)) = 5"
    by (simp only: full_service_state) simp
  then have l: "length (savedLocations full_service) = 5"
    by simp
  have "6 \<notin> set (map fst (map (\<lambda>l. (lat l, sl_id l)) (savedLocations full_service)))"
    by (simp only: full_service_state) simp
  then have "\<forall>l \<in> set (savedLocations full_service). lat l \<noteq> 6"
    by (auto simp: image_iff)
  then have f: "find (\<lambda>l. lat l = lat (city 6) \<and> lon l = lon (city 6))
      (savedLocations full_service) = None"
    by (auto simp: find_None_iff city_def)
  have wl: "within_limit full_service"
    unfolding full_service_def by (rule within_limit_run [OF within_limit_new])
  from inst u l f wl show ?thesis
    by (simp add: full_service_state)
qed

subsection \<open>The session after a login\<close>

lemma login_found:
  assumes "find (\<lambda>u. email u = mail \<and> password u = pw) (get_users s) = Some u"
  shows "login mail pw s =
     s\<lparr>currentUser := Some [(''id'', user_id u), (''name'', user_name u), (''email'', email u)],
       savedLocations := user_savedLocations u,
       stored_currentUser := Some [(''id'', user_id u), (''name'', user_name u),
                                   (''email'', email u)]\<rparr>"
  using assms by (simp add: login_def Let_def)

lemma login_not_found:
  assumes "find (\<lambda>u. email u = mail \<and> password u = pw) (get_users s) = None"
  shows "login mail pw s = js_alert ''Invalid email or password'' s"
  using assms by (simp add: login_def)

text \<open>
  Claim C10. After every successful login the session object, in memory and as stored
  under the current-user key, is the same object with exactly the keys \<open>id\<close>, \<open>name\<close> and
  \<open>email\<close>, holding the matched user's id, name and email; it has no \<open>password\<close> key. The
  stored users, where the password is kept, are unchanged and hold the matched user with
  the password given. A login that matches no user leaves both sessions as they were.
\<close>

theorem login_session_fields:
  "(find (\<lambda>u. email u = mail \<and> password u = pw) (get_users s) = Some u \<longrightarrow>
      currentUser (login mail pw s)
        = Some [(''id'', user_id u), (''name'', user_name u), (''email'', email u)]
      \<and> stored_currentUser (login mail pw s) = currentUser (login mail pw s)
      \<and> (\<forall>session. currentUser (login mail pw s) = Some session \<longrightarrow>
            map fst session = [''id'', ''name'', ''email'']
            \<and> map_of session ''password'' = None)
      \<and> stored_users (login mail pw s) = stored_users s
      \<and> u \<in> set (get_users s) \<and> password u = pw \<and> email u = mail)
   \<and> (find (\<lambda>u. email u = mail \<and> password u = pw) (get_users s) = None \<longrightarrow>
        currentUser (login mail pw s) = currentUser s
        \<and> stored_currentUser (login mail pw s) = stored_currentUser s)"
proof (intro conjI impI allI)
  assume f: "find (\<lambda>u. email u = mail \<and> password u = pw) (get_users s) = Some u"
  show "currentUser (login mail pw s)
        = Some [(''id'', user_id u), (''name'', user_name u), (''email'', email u)]"
    "stored_currentUser (login mail pw s) = currentUser (login mail pw s)"
    "stored_users (login mail pw s) = stored_users s"
    by (simp_all add: login_found [OF f])
  show "u \<in> set (get_users s)" "password u = pw" "email u = mail"
    using find_in_set [OF f] by simp_all
  fix session
  assume "currentUser (login mail pw s) = Some session"
  then have "session = [(''id'', user_id u), (''name'', user_name u), (''email'', email u)]"
    by (simp add: login_found [OF f])
  then show "map fst session = [''id'', ''name'', ''email'']"
    "map_of session ''password'' = None"
    by simp_all
next
  assume f: "find (\<lambda>u. email u = mail \<and> password u = pw) (get_users s) = None"
  show "currentUser (login mail pw s) = currentUser s"
    "stored_currentUser (login mail pw s) = stored_currentUser s"
    by (simp_all add: login_not_found [OF f] js_alert_def)
qed

theorem login_session_fields_witness:
  "currentUser (login ''ada@example.org'' ''secret'' registered_service)
     = Some [(''id'', ''1''), (''name'', ''Ada''), (''email'', ''ada@example.org'')]
   \<and> stored_currentUser (login ''ada@example.org'' ''secret'' registered_service)
     = Some [(''id'', ''1''), (''name'', ''Ada''), (''email'', ''ada@example.org'')]
   \<and> map_of [(''id'', ''1''), (''name'', ''Ada''), (''email'', ''ada@example.org'')] ''password''
     = None
   \<and> stored_users (login ''ada@example.org'' ''secret'' registered_service) = Some [ada]
   \<and> password ada = ''secret''
   \<and> currentUser (login ''ada@example.org'' ''wrong'' registered_service) = None"
proof -
  have f: "find (\<lambda>u. email u = ''ada@example.org'' \<and> password u = ''secret'')
      (get_users registered_service) = Some ada"
    by (simp add: registered_service_def ada_def)
  have g: "find (\<lambda>u. email u = ''ada@example.org'' \<and> password u = ''wrong'')
      (get_users registered_service) = None"
    by (simp add: registered_service_def ada_def)
  have s: "stored_users registered_service = Some [ada]" "currentUser registered_service = None"
    by (simp_all add: registered_service_def new_UserService_def)
  have a: "user_id ada = ''1''" "user_name ada = ''Ada''" "email ada = ''ada@example.org''"
    by (simp_all add: ada_def)
  from login_session_fields [of "''ada@example.org''" "''secret''" registered_service ada] f
  have 1: "currentUser (login ''ada@example.org'' ''secret'' registered_service)
     = Some [(''id'', ''1''), (''name'', ''Ada''), (''email'', ''ada@example.org'')]"
    "stored_currentUser (login ''ada@example.org'' ''secret'' registered_service)
     = Some [(''id'', ''1''), (''name'', ''Ada''), (''email'', ''ada@example.org'')]"
    "stored_users (login ''ada@example.org'' ''secret'' registered_service) = Some [ada]"
    "password ada = ''secret''"
    by (simp_all add: a s)
  from login_session_fields [of "''ada@example.org''" "''wrong''" registered_service ada] g
  have 2: "currentUser (login ''ada@example.org'' ''wrong'' registered_service) = None"
    by (simp add: s)
  from 1 2 show ?thesis
    by simp
qed

end
